theory Spec2Isabelle
  imports Main
begin

section \<open>The C3DC Prefect data loader (prefect\_data\_loader.py)\<close>

text \<open>
  A shallow embedding of \<^verbatim>\<open>src/prefect_data_loader.py\<close>. Python exceptions are values of
  \<open>py_error\<close>; a function that may raise returns \<open>py_error + 'a\<close>. The file system and the
  calls made to the external loader are an explicit \<open>world\<close> that is passed in and returned.
  The collaborators that live outside the repository (the secrets manager, the \<^verbatim>\<open>git\<close>
  subprocess, the clock, the \<^verbatim>\<open>inflect\<close> engine, PyYAML and the loader's \<^verbatim>\<open>main\<close>) are the
  fields of the record \<open>env\<close>, so every theorem holds for all of their behaviours.
  Console output (\<^verbatim>\<open>print\<close>) is not modelled. A task called in the flow returns its
  value or raises its exception. \<open>c3dc_hub_data_loader\<close> is the function under the
  \<^verbatim>\<open>@flow\<close> decorator; a call of the decorated flow first checks the parameters against
  their annotations, which is \<open>c3dc_hub_data_loader_flow\<close>.
\<close>

subsection \<open>Python values\<close>

datatype py_error =
    ValueError string
  | KeyError string
  | TypeError string
  | AttributeError string
  | FileNotFoundError string
  | YAMLError string
  | CalledProcessError int
  | ParameterTypeError string
  | OtherError string

text \<open>
  What \<^verbatim>\<open>yaml.safe_load\<close> builds: scalars, lists, and dicts whose keys are scalars (a
  dict keeps its insertion order, so it is an association list).
\<close>

datatype scalar = S_null | S_bool bool | S_int int | S_str string | S_other string

datatype yaml = Y_scalar scalar | Y_seq "yaml list" | Y_map "(scalar \<times> yaml) list"

text \<open>\<^verbatim>\<open>d[k] = v\<close> on an insertion-ordered dict: an existing key keeps its place.\<close>

fun dict_set :: "'k \<Rightarrow> 'v \<Rightarrow> ('k \<times> 'v) list \<Rightarrow> ('k \<times> 'v) list" where
  "dict_set k v [] = [(k, v)]"
| "dict_set k v ((k', v') # d) = (if k' = k then (k, v) # d else (k', v') # dict_set k v d)"

text \<open>\<^verbatim>\<open>d[k]\<close> on a dict with string values.\<close>

definition dict_getitem :: "(string \<times> 'v) list \<Rightarrow> string \<Rightarrow> py_error + 'v" where
  "dict_getitem d k = (case map_of d k of None \<Rightarrow> Inl (KeyError k) | Some v \<Rightarrow> Inr v)"

text \<open>\<^verbatim>\<open>obj[k]\<close> for a string \<open>k\<close> on a parsed YAML value.\<close>

fun y_getitem :: "yaml \<Rightarrow> string \<Rightarrow> py_error + yaml" where
  "y_getitem (Y_map kvs) k =
     (case map_of kvs (S_str k) of None \<Rightarrow> Inl (KeyError k) | Some v \<Rightarrow> Inr v)"
| "y_getitem (Y_seq xs) k = Inl (TypeError ''list indices must be integers or slices, not str'')"
| "y_getitem (Y_scalar (S_str s)) k = Inl (TypeError ''string indices must be integers'')"
| "y_getitem (Y_scalar s) k = Inl (TypeError ''object is not subscriptable'')"

text \<open>\<^verbatim>\<open>list(obj.keys())\<close>.\<close>

fun y_keys :: "yaml \<Rightarrow> py_error + scalar list" where
  "y_keys (Y_map kvs) = Inr (map fst kvs)"
| "y_keys (Y_seq xs) = Inl (AttributeError ''keys'')"
| "y_keys (Y_scalar s) = Inl (AttributeError ''keys'')"

definition ystr :: "string \<Rightarrow> yaml" where
  "ystr s = Y_scalar (S_str s)"

definition ydict :: "(string \<times> string) list \<Rightarrow> yaml" where
  "ydict d = Y_map (map (\<lambda>(k, v). (S_str k, ystr v)) d)"

subsection \<open>Python string operations\<close>

text \<open>\<^verbatim>\<open>s.split(sep)\<close> for a one-character separator: every occurrence splits.\<close>

fun str_split :: "char \<Rightarrow> string \<Rightarrow> string list" where
  "str_split c [] = [[]]"
| "str_split c (x # xs) =
     (if x = c then [] # str_split c xs
      else (case str_split c xs of [] \<Rightarrow> [[x]] | y # ys \<Rightarrow> (x # y) # ys))"

text \<open>\<^verbatim>\<open>sep.join(xs)\<close>.\<close>

fun str_join :: "string \<Rightarrow> string list \<Rightarrow> string" where
  "str_join sep [] = []"
| "str_join sep [x] = x"
| "str_join sep (x # y # ys) = x @ sep @ str_join sep (y # ys)"

text \<open>\<^verbatim>\<open>s.endswith("/")\<close>.\<close>

definition endswith_slash :: "string \<Rightarrow> bool" where
  "endswith_slash s = (s \<noteq> [] \<and> last s = CHR ''/'')"

text \<open>\<^verbatim>\<open>s.strip()\<close>: the ASCII white space of \<^verbatim>\<open>str.isspace\<close>.\<close>

definition is_space :: "char \<Rightarrow> bool" where
  "is_space c = (c \<in> set [CHR '' '', CHR 0x09, CHR 0x0A, CHR 0x0B, CHR 0x0C, CHR 0x0D,
     CHR 0x1C, CHR 0x1D, CHR 0x1E, CHR 0x1F])"

definition strip :: "string \<Rightarrow> string" where
  "strip s = rev (dropWhile is_space (rev (dropWhile is_space s)))"

subsection \<open>Timestamps\<close>

record datetime =
  year :: nat
  month :: nat
  day :: nat
  hour :: nat
  minute :: nat
  second :: nat

definition digit_char :: "nat \<Rightarrow> char" where
  "digit_char n = ''0123456789'' ! (n mod 10)"

fun str_of_nat :: "nat \<Rightarrow> string" where
  "str_of_nat n = (if n < 10 then [digit_char n] else str_of_nat (n div 10) @ [digit_char n])"

declare str_of_nat.simps [simp del]

definition zfill :: "nat \<Rightarrow> string \<Rightarrow> string" where
  "zfill k s = replicate (k - length s) CHR ''0'' @ s"

text \<open>\<^verbatim>\<open>now.strftime("%Y%m%d_T%H%M%S")\<close>: every field zero-padded to its width.\<close>

definition strftime :: "datetime \<Rightarrow> string" where
  "strftime t =
     zfill 4 (str_of_nat (year t)) @ zfill 2 (str_of_nat (month t)) @ zfill 2 (str_of_nat (day t))
     @ ''_T''
     @ zfill 2 (str_of_nat (hour t)) @ zfill 2 (str_of_nat (minute t))
     @ zfill 2 (str_of_nat (second t))"

subsection \<open>The run configuration (class Config)\<close>

datatype plugin_config = PluginConfig string

record config =
  dataset :: string
  uri :: string
  user :: string
  password :: string
  schema :: "string list"
  prop_file :: string
  bucket :: string
  s3_folder :: string
  backup_folder :: string
  cheat_mode :: bool
  dry_run :: bool
  wipe_db :: bool
  no_backup :: bool
  no_parents :: bool
  verbose :: bool
  yes :: bool
  max_violations :: int
  mode :: string
  split_transactions :: bool
  upload_log_dir :: "string option"
  plugins :: "plugin_config list"
  temp_folder :: string
  config_file :: "string option"

text \<open>\<^verbatim>\<open>Config.__init__\<close>, with the parameters in the order of the signature.\<close>

definition Config_init ::
  "string \<Rightarrow> string \<Rightarrow> string \<Rightarrow> string \<Rightarrow> string list \<Rightarrow> string \<Rightarrow> string \<Rightarrow> string \<Rightarrow> string
   \<Rightarrow> bool \<Rightarrow> bool \<Rightarrow> bool \<Rightarrow> bool \<Rightarrow> bool \<Rightarrow> bool \<Rightarrow> bool \<Rightarrow> int \<Rightarrow> string \<Rightarrow> bool
   \<Rightarrow> string option \<Rightarrow> string list \<Rightarrow> string \<Rightarrow> config" where
  "Config_init p_dataset p_uri p_user p_password p_schemas p_prop_file p_bucket p_s3_folder
     p_backup_folder p_cheat_mode p_dry_run p_wipe_db p_no_backup p_no_parents p_verbose p_yes
     p_max_violation p_mode p_split_transaction p_upload_log_dir p_plugins p_temp_folder =
   \<lparr> dataset = p_dataset, uri = p_uri, user = p_user, password = p_password,
     schema = p_schemas, prop_file = p_prop_file, bucket = p_bucket, s3_folder = p_s3_folder,
     backup_folder = p_backup_folder, cheat_mode = p_cheat_mode, dry_run = p_dry_run,
     wipe_db = p_wipe_db, no_backup = p_no_backup, no_parents = p_no_parents,
     verbose = p_verbose, yes = p_yes, max_violations = p_max_violation, mode = p_mode,
     split_transactions = p_split_transaction, upload_log_dir = p_upload_log_dir,
     plugins = map PluginConfig p_plugins, temp_folder = p_temp_folder, config_file = None \<rparr>"

subsection \<open>The outside world\<close>

text \<open>
  \<open>get_secret\<close> is \<^verbatim>\<open>bento.common.secret_manager.get_secret\<close>; \<open>check_output_git_describe\<close>
  is \<^verbatim>\<open>subprocess.check_output(["git", "describe", "--tags", "--exact-match"], cwd=..., text=True)\<close>
  (a non-zero exit status is \<open>CalledProcessError\<close>); \<open>datetime_now\<close> is the clock read in
  the zone \<^verbatim>\<open>timezone("EST")\<close>; \<open>plural\<close> is \<^verbatim>\<open>inflect.engine().plural\<close>;
  \<open>yaml_safe_load\<close> and \<open>yaml_dump\<close> are PyYAML's \<^verbatim>\<open>safe_load\<close> and
  \<^verbatim>\<open>dump(..., sort_keys=False)\<close>; \<open>loader_main\<close> is \<^verbatim>\<open>loader.main\<close>, \<open>None\<close> when it
  returns and \<open>Some e\<close> when it raises. \<open>plural\<close> is total: a word on which the
  engine raises is outside the model.
\<close>

record env =
  get_secret :: "string \<Rightarrow> py_error + (string \<times> string) list"
  check_output_git_describe :: "string \<Rightarrow> py_error + string"
  datetime_now :: datetime
  plural :: "string \<Rightarrow> string"
  yaml_safe_load :: "string \<Rightarrow> py_error + yaml"
  yaml_dump :: "yaml \<Rightarrow> string"
  loader_main :: "config \<Rightarrow> py_error option"

text \<open>The files (path to text) and the configurations handed to the loader, in order.\<close>

record world =
  files :: "string \<rightharpoonup> string"
  loads :: "config list"

subsection \<open>Module constants\<close>

definition NEO4J_URI :: string where "NEO4J_URI = ''neo4j_uri''"
definition NEO4J_PASSWORD :: string where "NEO4J_PASSWORD = ''neo4j_password''"
definition SUBMISSION_BUCKET :: string where "SUBMISSION_BUCKET = ''submission_bucket''"

text \<open>
  \<^verbatim>\<open>ModeDropDownChoices = Literal["upsert", "new", "delete"]\<close>: the values of the type.
  \<^verbatim>\<open>DropDownChoices = Literal[True, False]\<close> is \<open>bool\<close>.
\<close>

definition ModeDropDownChoices :: "string list" where
  "ModeDropDownChoices = [''upsert'', ''new'', ''delete'']"

subsection \<open>get\_time and get\_git\_tag\<close>

definition get_time :: "env \<Rightarrow> string" where
  "get_time e = strftime (datetime_now e)"

text \<open>Only \<^verbatim>\<open>CalledProcessError\<close> is caught (and gives \<^verbatim>\<open>None\<close>); anything else propagates.\<close>

definition get_git_tag :: "env \<Rightarrow> string \<Rightarrow> py_error + string option" where
  "get_git_tag e repo_path =
     (case check_output_git_describe e repo_path of
        Inr out \<Rightarrow> Inr (Some (strip out))
      | Inl (CalledProcessError rc) \<Rightarrow> Inr None
      | Inl err \<Rightarrow> Inl err)"

subsection \<open>create\_prop\_file\<close>

text \<open>The body of the loop for a node name that is a string: the plural of the node.\<close>

definition node_plural :: "env \<Rightarrow> string \<Rightarrow> string" where
  "node_plural e node =
     (if CHR ''_'' \<in> set node then
        (let last_word = last (str_split CHR ''_'' node);
             last_word_plural = plural e last_word;
             node_name_list = butlast (str_split CHR ''_'' node) @ [last_word_plural]
         in str_join ''_'' node_name_list)
      else plural e node)"

text \<open>
  \<^verbatim>\<open>for node in node_list\<close>, on the pair \<open>(plural_dict, id_dict)\<close>. A key that is not a
  string makes \<^verbatim>\<open>"_" in node\<close> raise \<^verbatim>\<open>TypeError\<close>.
\<close>

fun node_loop ::
  "env \<Rightarrow> scalar list \<Rightarrow> (string \<times> string) list \<times> (string \<times> string) list
   \<Rightarrow> py_error + ((string \<times> string) list \<times> (string \<times> string) list)" where
  "node_loop e [] (plural_dict, id_dict) = Inr (plural_dict, id_dict)"
| "node_loop e (S_str node # rest) (plural_dict, id_dict) =
     node_loop e rest (dict_set node (node_plural e node) plural_dict, dict_set node ''id'' id_dict)"
| "node_loop e (k # rest) (plural_dict, id_dict) =
     Inl (TypeError ''argument is not iterable'')"

definition type_mapping :: "(string \<times> string) list" where
  "type_mapping =
     [(''string'', ''String''), (''number'', ''Float''), (''integer'', ''Int''),
      (''boolean'', ''Boolean''), (''array'', ''Array''), (''object'', ''Object''),
      (''datetime'', ''DateTime''), (''date'', ''Date''), (''TBD'', ''String'')]"

definition default_domain_value :: string where
  "default_domain_value = ''Unknown.domain.nci.nih.gov''"

text \<open>
  \<open>properties\<close> is the dict \<^verbatim>\<open>return_dict["Properties"]\<close>, which the source fills in
  place. The file is read back and printed after the write, which changes nothing.
\<close>

definition create_prop_file ::
  "env \<Rightarrow> string \<Rightarrow> string \<Rightarrow> string \<Rightarrow> world \<Rightarrow> world \<times> (py_error + string)" where
  "create_prop_file e model_yaml delimiter domain_value w =
     (let properties = dict_set (S_str ''domain_value'') (ystr domain_value) [];
          properties = dict_set (S_str ''rel_prop_delimiter'') (ystr ''$'') properties;
          properties = dict_set (S_str ''delimiter'') (ystr delimiter) properties
      in case files w model_yaml of
           None \<Rightarrow> (w, Inl (FileNotFoundError model_yaml))
         | Some text \<Rightarrow>
      (case yaml_safe_load e text of
           Inl err \<Rightarrow> (w, Inl err)
         | Inr model_dict \<Rightarrow>
      (case y_getitem model_dict ''Nodes'' of
           Inl err \<Rightarrow> (w, Inl err)
         | Inr nodes \<Rightarrow>
      (case y_keys nodes of
           Inl err \<Rightarrow> (w, Inl err)
         | Inr node_list \<Rightarrow>
      (case node_loop e node_list ([], []) of
           Inl err \<Rightarrow> (w, Inl err)
         | Inr (plural_dict, id_dict) \<Rightarrow>
          (let properties = dict_set (S_str ''plurals'') (ydict plural_dict) properties;
               properties = dict_set (S_str ''type_mapping'') (ydict type_mapping) properties;
               properties = dict_set (S_str ''id_fields'') (ydict id_dict) properties;
               return_dict = Y_map [(S_str ''Properties'', Y_map properties)];
               prop_file_name = ''props_file.yaml''
           in (w\<lparr>files := (files w)(prop_file_name \<mapsto> yaml_dump e return_dict)\<rparr>,
               Inr prop_file_name)))))))"

text \<open>
  The entries of \<^verbatim>\<open>return_dict["Properties"]\<close> after the six assignments, for given
  \<open>plural_dict\<close> and \<open>id_dict\<close>.
\<close>

abbreviation properties_entries ::
  "string \<Rightarrow> string \<Rightarrow> (string \<times> string) list \<Rightarrow> (string \<times> string) list
   \<Rightarrow> (scalar \<times> yaml) list" where
  "properties_entries domain_value delimiter plural_dict id_dict \<equiv>
     [(S_str ''domain_value'', ystr domain_value),
      (S_str ''rel_prop_delimiter'', ystr ''$''),
      (S_str ''delimiter'', ystr delimiter),
      (S_str ''plurals'', ydict plural_dict),
      (S_str ''type_mapping'', ydict type_mapping),
      (S_str ''id_fields'', ydict id_dict)]"

subsection \<open>load\_data\<close>

text \<open>
  The parameters in the order of the signature. A caller that leaves a keyword out passes
  the default of the signature, which are the constants below.
\<close>

definition load_data_default_user :: string where
  "load_data_default_user = ''neo4j''"

definition load_data_default_backup_folder :: string where
  "load_data_default_backup_folder = ''tmp/data-loader-backups''"

definition load_data_default_no_parents :: bool where
  "load_data_default_no_parents = True"

definition load_data_default_verbose :: bool where
  "load_data_default_verbose = False"

definition load_data ::
  "env \<Rightarrow> string \<Rightarrow> string \<Rightarrow> string option \<Rightarrow> string \<Rightarrow> string \<Rightarrow> string \<Rightarrow> string \<Rightarrow> string
   \<Rightarrow> string list \<Rightarrow> string \<Rightarrow> string \<Rightarrow> bool \<Rightarrow> bool \<Rightarrow> bool \<Rightarrow> bool \<Rightarrow> bool \<Rightarrow> bool \<Rightarrow> bool
   \<Rightarrow> int \<Rightarrow> string \<Rightarrow> bool \<Rightarrow> string list \<Rightarrow> world \<Rightarrow> world \<times> (py_error + unit)" where
  "load_data e p_s3_bucket p_s3_folder p_upload_log_dir p_dataset p_temp_folder p_uri p_user
     p_password p_schemas p_prop_file p_backup_folder p_cheat_mode p_dry_run p_wipe_db
     p_no_backup p_no_parents p_verbose p_yes p_max_violation p_mode p_split_transaction
     p_plugins w =
     (let params = Config_init p_dataset p_uri p_user p_password p_schemas p_prop_file
            p_s3_bucket p_s3_folder p_backup_folder p_cheat_mode p_dry_run p_wipe_db
            p_no_backup p_no_parents p_verbose p_yes p_max_violation p_mode
            p_split_transaction p_upload_log_dir p_plugins p_temp_folder;
          w1 = w\<lparr>loads := loads w @ [params]\<rparr>
      in case loader_main e params of
           Some err \<Rightarrow> (w1, Inl err)
         | None \<Rightarrow> (w1, Inr ()))"

subsection \<open>The flow c3dc\_hub\_data\_loader\<close>

definition c3dc_hub_data_loader ::
  "env \<Rightarrow> string \<Rightarrow> string \<Rightarrow> string \<Rightarrow> string \<Rightarrow> bool \<Rightarrow> bool \<Rightarrow> bool \<Rightarrow> string \<Rightarrow> bool
   \<Rightarrow> world \<Rightarrow> world \<times> (py_error + unit)" where
  "c3dc_hub_data_loader e secret_name metadata_folder runner model_tag p_cheat_mode p_dry_run
     p_wipe_db p_mode p_split_transaction w =
     (case get_secret e secret_name of
        Inl err \<Rightarrow> (w, Inl err)
      | Inr secret \<Rightarrow>
     (case dict_getitem secret NEO4J_URI of
        Inl err \<Rightarrow> (w, Inl err)
      | Inr p_uri \<Rightarrow>
     (case dict_getitem secret NEO4J_PASSWORD of
        Inl err \<Rightarrow> (w, Inl err)
      | Inr p_password \<Rightarrow>
     (case dict_getitem secret SUBMISSION_BUCKET of
        Inl err \<Rightarrow> (w, Inl err)
      | Inr s3_bucket \<Rightarrow>
     (case get_git_tag e ''../c3dc-model/'' of
        Inl err \<Rightarrow> (w, Inl err)
      | Inr pulled_model_branch \<Rightarrow>
       if \<not> (Some model_tag = pulled_model_branch) then
         (w, Inl (ValueError ''The model branch pulled is not the same as the input model tag''))
       else
         (let metadata_folder1 =
                (if \<not> endswith_slash metadata_folder then metadata_folder @ ''/''
                 else metadata_folder);
              p_s3_folder = metadata_folder1;
              log_folder = ''prefect_c3dc_dataloader_'' @ get_time e;
              runner1 = (if endswith_slash runner then butlast runner else runner);
              p_upload_log_dir = ''s3://'' @ s3_bucket @ ''/'' @ runner1 @ ''/'' @ log_folder @ ''/logs'';
              schemas = [''../c3dc-model/model-desc/c3dc-model.yml'',
                         ''../c3dc-model/model-desc/c3dc-model-props.yml''];
              domain_value = ''clinicalcommons.ccdi.cancer.gov'';
              metadata_delimiter = '';''
          in case create_prop_file e (hd schemas) metadata_delimiter domain_value w of
               (w1, Inl err) \<Rightarrow> (w1, Inl err)
             | (w1, Inr p_prop_file) \<Rightarrow>
                 load_data e s3_bucket p_s3_folder (Some p_upload_log_dir) ''data'' ''tmp''
                   p_uri load_data_default_user p_password schemas p_prop_file
                   load_data_default_backup_folder p_cheat_mode p_dry_run p_wipe_db
                   True load_data_default_no_parents load_data_default_verbose True
                   1000000 p_mode p_split_transaction [] w1))))))"

text \<open>
  A call of the decorated flow. \<^verbatim>\<open>@flow\<close> validates the parameters against the annotations
  of the signature before the function runs, and a value outside the annotation makes the
  run fail with \<^verbatim>\<open>ParameterTypeError\<close>. The string and boolean parameters have their
  types already; \<open>mode\<close> must be one of \<open>ModeDropDownChoices\<close>.
\<close>

definition c3dc_hub_data_loader_flow ::
  "env \<Rightarrow> string \<Rightarrow> string \<Rightarrow> string \<Rightarrow> string \<Rightarrow> bool \<Rightarrow> bool \<Rightarrow> bool \<Rightarrow> string \<Rightarrow> bool
   \<Rightarrow> world \<Rightarrow> world \<times> (py_error + unit)" where
  "c3dc_hub_data_loader_flow e secret_name metadata_folder runner model_tag p_cheat_mode
     p_dry_run p_wipe_db p_mode p_split_transaction w =
     (if p_mode \<in> set ModeDropDownChoices then
        c3dc_hub_data_loader e secret_name metadata_folder runner model_tag p_cheat_mode
          p_dry_run p_wipe_db p_mode p_split_transaction w
      else (w, Inl (ParameterTypeError ''mode'')))"

subsection \<open>An example run\<close>

text \<open>
  The end-to-end scenario: a model with the nodes \<open>diagnosis\<close> and \<open>study_arm\<close>, the
  secret of the deployment, a clock, and a repository whose \<^verbatim>\<open>git describe\<close> outcome is the
  parameter. The concrete collaborators are small stand-ins for the libraries.
\<close>

definition example_schema_text :: string where
  "example_schema_text = ''Nodes: {diagnosis: {Props: [diagnosis_id]}, study_arm: {Props: null}}''"

definition example_schema :: yaml where
  "example_schema =
     Y_map [(S_str ''Nodes'',
       Y_map [(S_str ''diagnosis'', Y_map [(S_str ''Props'', Y_seq [ystr ''diagnosis_id''])]),
              (S_str ''study_arm'', Y_map [(S_str ''Props'', Y_scalar S_null)])])]"

definition example_safe_load :: "string \<Rightarrow> py_error + yaml" where
  "example_safe_load text =
     (if text = example_schema_text then Inr example_schema
      else if text = ''Handle: C3DC'' then Inr (Y_map [(S_str ''Handle'', ystr ''C3DC'')])
      else if text = [] then Inr (Y_scalar S_null)
      else Inl (YAMLError ''while parsing a flow mapping''))"

definition example_plural :: "string \<Rightarrow> string" where
  "example_plural word = (if word = ''diagnosis'' then ''diagnoses'' else word @ ''s'')"

fun example_dump_scalar :: "scalar \<Rightarrow> string" where
  "example_dump_scalar S_null = ''null''"
| "example_dump_scalar (S_bool b) = (if b then ''true'' else ''false'')"
| "example_dump_scalar (S_int i) = (if i < 0 then ''-'' else []) @ str_of_nat (nat \<bar>i\<bar>)"
| "example_dump_scalar (S_str s) = s"
| "example_dump_scalar (S_other s) = s"

fun example_dump :: "yaml \<Rightarrow> string" where
  "example_dump (Y_scalar s) = example_dump_scalar s"
| "example_dump (Y_seq xs) = ''['' @ concat (map (\<lambda>x. example_dump x @ '','') xs) @ '']''"
| "example_dump (Y_map kvs) =
     ''{'' @ concat (map (\<lambda>kv. example_dump_scalar (fst kv) @ '':'' @ example_dump (snd kv) @ '','') kvs)
     @ ''}''"

definition example_env :: "py_error + string \<Rightarrow> env" where
  "example_env git_outcome =
     \<lparr> get_secret = (\<lambda>name.
         if name = ''c3dc-dev'' then
           Inr [(''neo4j_uri'', ''bolt://db:7687''), (''neo4j_password'', ''s3cret''),
                (''submission_bucket'', ''c3dc-curation'')]
         else Inl (OtherError ''ResourceNotFoundException'')),
       check_output_git_describe = (\<lambda>repo_path. git_outcome),
       datetime_now = \<lparr> year = 2024, month = 3, day = 7, hour = 9, minute = 5, second = 0 \<rparr>,
       plural = example_plural,
       yaml_safe_load = example_safe_load,
       yaml_dump = example_dump,
       loader_main = (\<lambda>params. None) \<rparr>"

definition example_world :: world where
  "example_world =
     \<lparr> files = [''../c3dc-model/model-desc/c3dc-model.yml'' \<mapsto> example_schema_text,
                 ''broken.yml'' \<mapsto> ''Nodes: {'',
                 ''no_nodes.yml'' \<mapsto> ''Handle: C3DC'',
                 ''empty.yml'' \<mapsto> [],
                 ''props_file.yaml'' \<mapsto> ''stale''],
       loads = [] \<rparr>"

section \<open>Properties\<close>

subsection \<open>Dicts and strings\<close>

lemma map_of_dict_set: "map_of (dict_set k v d) = (map_of d)(k \<mapsto> v)"
  by (induction d) (auto simp: fun_eq_iff)

lemma keys_dict_set: "fst ` set (dict_set k v d) = insert k (fst ` set d)"
proof (induction d)
  case Nil
  show ?case by simp
next
  case (Cons a d)
  obtain k' v' where a: "a = (k', v')" by (cases a)
  show ?case using Cons by (cases "k' = k") (auto simp: a)
qed

lemma str_split_not_Nil: "str_split c s \<noteq> []"
  by (induction s) (auto split: list.splits)

lemma str_split_no_sep: "c \<notin> set s \<Longrightarrow> str_split c s = [s]"
  by (induction s) (auto split: list.splits)

lemma str_split_snoc: "c \<notin> set lw \<Longrightarrow> str_split c (pre @ c # lw) = str_split c pre @ [lw]"
  by (induction pre) (auto simp: str_split_no_sep str_split_not_Nil split: list.splits)

lemma str_join_snoc: "xs \<noteq> [] \<Longrightarrow> str_join sep (xs @ [y]) = str_join sep xs @ sep @ y"
  by (induction sep xs rule: str_join.induct) auto

lemma str_join_Cons_Cons: "str_join sep ((a # x) # xs) = a # str_join sep (x # xs)"
  by (cases xs) auto

lemma str_join_Nil_Cons: "xs \<noteq> [] \<Longrightarrow> str_join sep ([] # xs) = sep @ str_join sep xs"
  by (cases xs) auto

lemma str_join_split: "str_join [c] (str_split c s) = s"
  by (induction s)
    (auto simp: str_split_not_Nil str_join_Cons_Cons str_join_Nil_Cons split: list.splits)

lemma node_plural_compound:
  "CHR ''_'' \<notin> set lw \<Longrightarrow> node_plural e (pre @ CHR ''_'' # lw) = pre @ CHR ''_'' # plural e lw"
  by (simp add: node_plural_def str_split_snoc str_join_snoc str_split_not_Nil str_join_split)

lemma node_plural_simple: "CHR ''_'' \<notin> set node \<Longrightarrow> node_plural e node = plural e node"
  by (simp add: node_plural_def)

subsection \<open>The loop over the nodes\<close>

lemma node_loop_Inr:
  "node_loop e ks (pd, idd) = Inr (pd', idd') \<Longrightarrow>
     (\<exists>names. ks = map S_str names
        \<and> map_of pd' = (\<lambda>n. if n \<in> set names then Some (node_plural e n) else map_of pd n)
        \<and> map_of idd' = (\<lambda>n. if n \<in> set names then Some ''id'' else map_of idd n)
        \<and> fst ` set pd' = fst ` set pd \<union> set names
        \<and> fst ` set idd' = fst ` set idd \<union> set names)"
proof (induction e ks "(pd, idd)" arbitrary: pd idd rule: node_loop.induct)
  case (1 e plural_dict id_dict)
  then show ?case by auto
next
  case (2 e node rest plural_dict id_dict)
  from 2(2) have "node_loop e rest
      (dict_set node (node_plural e node) plural_dict, dict_set node ''id'' id_dict)
      = Inr (pd', idd')"
    by simp
  from 2(1)[OF this] obtain names where n: "rest = map S_str names"
    "map_of pd' = (\<lambda>n. if n \<in> set names then Some (node_plural e n)
       else map_of (dict_set node (node_plural e node) plural_dict) n)"
    "map_of idd' = (\<lambda>n. if n \<in> set names then Some ''id''
       else map_of (dict_set node ''id'' id_dict) n)"
    "fst ` set pd' = fst ` set (dict_set node (node_plural e node) plural_dict) \<union> set names"
    "fst ` set idd' = fst ` set (dict_set node ''id'' id_dict) \<union> set names"
    by blast
  show ?case
    apply (rule exI[of _ "node # names"])
    using n by (auto simp: map_of_dict_set keys_dict_set fun_eq_iff)
qed auto

lemma node_loop_strings:
  "\<exists>pd' idd'. node_loop e (map S_str names) (pd, idd) = Inr (pd', idd')"
  by (induction names arbitrary: pd idd) auto

subsection \<open>What create\_prop\_file does\<close>

lemma create_prop_file_Inr:
  assumes "create_prop_file e my d dv w = (w', Inr p)"
  shows "\<exists>text md nodes ks pd idd.
           files w my = Some text \<and> yaml_safe_load e text = Inr md
         \<and> y_getitem md ''Nodes'' = Inr nodes \<and> y_keys nodes = Inr ks
         \<and> node_loop e ks ([], []) = Inr (pd, idd)
         \<and> p = ''props_file.yaml''
         \<and> w' = w\<lparr>files := (files w)(''props_file.yaml'' \<mapsto> yaml_dump e
              (Y_map [(S_str ''Properties'', Y_map (properties_entries dv d pd idd))]))\<rparr>"
  using assms
  by (auto simp: create_prop_file_def Let_def split: option.splits sum.splits prod.splits)

lemma create_prop_file_Inl:
  "create_prop_file e my d dv w = (w', Inl err) \<Longrightarrow> w' = w"
  by (auto simp: create_prop_file_def Let_def split: option.splits sum.splits prod.splits)

lemma create_prop_file_loads:
  "create_prop_file e my d dv w = (w', res) \<Longrightarrow> loads w' = loads w"
  by (auto simp: create_prop_file_def Let_def split: option.splits sum.splits prod.splits)

lemma create_prop_file_strings:
  assumes "files w my = Some text" and "yaml_safe_load e text = Inr md"
    and "y_getitem md ''Nodes'' = Inr (Y_map nodes)" and "map fst nodes = map S_str names"
  shows "\<exists>w'. create_prop_file e my d dv w = (w', Inr ''props_file.yaml'')"
proof -
  obtain pd idd where "node_loop e (map S_str names) ([], []) = Inr (pd, idd)"
    using node_loop_strings by blast
  then show ?thesis
    using assms by (simp add: create_prop_file_def Let_def)
qed

lemma dict_set_distinct: "distinct (map fst d) \<Longrightarrow> distinct (map fst (dict_set k v d))"
proof (induction d)
  case Nil
  show ?case by simp
next
  case (Cons a d)
  obtain k' v' where a: "a = (k', v')" by (cases a)
  show ?case using Cons keys_dict_set[of k v d] by (cases "k' = k") (auto simp: a)
qed

lemma node_loop_distinct:
  "node_loop e ks (pd, idd) = Inr (pd', idd') \<Longrightarrow> distinct (map fst idd)
     \<Longrightarrow> distinct (map fst idd')"
  by (induction e ks "(pd, idd)" arbitrary: pd idd rule: node_loop.induct)
     (auto simp: dict_set_distinct)

lemma node_loop_empty:
  assumes "node_loop e ks ([], []) = Inr (pd, idd)"
  shows "\<exists>names. ks = map S_str names
     \<and> (\<forall>n. map_of pd n = (if n \<in> set names then Some (node_plural e n) else None))
     \<and> (\<forall>n. map_of idd n = (if n \<in> set names then Some ''id'' else None))
     \<and> fst ` set pd = set names \<and> fst ` set idd = set names
     \<and> distinct (map fst idd)"
proof -
  have "distinct (map fst idd)"
    using node_loop_distinct[OF assms] by simp
  with node_loop_Inr[OF assms] show ?thesis
    by (elim exE conjE, rule_tac x = names in exI) simp
qed

subsection \<open>Timestamps are zero-padded decimals\<close>

lemma digit_char_0: "digit_char 0 = CHR ''0''"
  by (simp add: digit_char_def)

lemma str_of_nat_small: "n < 10 \<Longrightarrow> str_of_nat n = [digit_char n]"
  by (simp add: str_of_nat.simps)

lemma str_of_nat_large: "\<not> n < 10 \<Longrightarrow> str_of_nat n = str_of_nat (n div 10) @ [digit_char n]"
  by (subst str_of_nat.simps) simp

lemma zfill_2: 
  assumes "n < 100"
  shows "zfill 2 (str_of_nat n) = [digit_char (n div 10), digit_char n]"
proof (cases "n < 10")
  case True
  then show ?thesis by (simp add: zfill_def str_of_nat_small digit_char_0)
next
  case False
  moreover from assms have "n div 10 < 10" by simp
  ultimately show ?thesis by (simp add: zfill_def str_of_nat_small str_of_nat_large)
qed

lemma str_of_nat_2:
  assumes "\<not> n < 10" "n < 100"
  shows "str_of_nat n = [digit_char (n div 10), digit_char n]"
proof -
  from assms have "n div 10 < 10" by simp
  with assms show ?thesis by (simp add: str_of_nat_small str_of_nat_large)
qed

lemma str_of_nat_3:
  assumes "\<not> n < 100" "n < 1000"
  shows "str_of_nat n = [digit_char (n div 100), digit_char (n div 10), digit_char n]"
proof -
  from assms have "\<not> n div 10 < 10" "n div 10 < 100" by simp_all
  from str_of_nat_2[OF this] assms show ?thesis
    by (simp add: str_of_nat_large div_mult2_eq[symmetric])
qed

lemma str_of_nat_4:
  assumes "\<not> n < 1000" "n < 10000"
  shows "str_of_nat n =
    [digit_char (n div 1000), digit_char (n div 100), digit_char (n div 10), digit_char n]"
proof -
  from assms have "\<not> n div 10 < 100" "n div 10 < 1000" by simp_all
  from str_of_nat_3[OF this] assms show ?thesis
    by (simp add: str_of_nat_large div_mult2_eq[symmetric])
qed

lemma zfill_4:
  assumes "n < 10000"
  shows "zfill 4 (str_of_nat n) =
    [digit_char (n div 1000), digit_char (n div 100), digit_char (n div 10), digit_char n]"
proof -
  consider "n < 10" | "\<not> n < 10" "n < 100" | "\<not> n < 100" "n < 1000" | "\<not> n < 1000"
    by linarith
  then show ?thesis
  proof cases
    case 1
    then show ?thesis by (simp add: zfill_def str_of_nat_small digit_char_0 numeral_3_eq_3)
  next
    case 2
    then show ?thesis by (simp add: zfill_def str_of_nat_2 digit_char_0 numeral_2_eq_2)
  next
    case 3
    then show ?thesis by (simp add: zfill_def str_of_nat_3 digit_char_0)
  next
    case 4
    with assms show ?thesis by (simp add: zfill_def str_of_nat_4)
  qed
qed

subsection \<open>What the flow does\<close>

lemma endswith_slash_append: "endswith_slash (v @ ''/'')"
  by (simp add: endswith_slash_def)

lemma flow_proceeds:
  assumes "get_secret e sn = Inr secret"
    and "dict_getitem secret NEO4J_URI = Inr u"
    and "dict_getitem secret NEO4J_PASSWORD = Inr pw"
    and "dict_getitem secret SUBMISSION_BUCKET = Inr b"
    and "get_git_tag e ''../c3dc-model/'' = Inr (Some mt)"
  shows "c3dc_hub_data_loader e sn mf r mt cm dr wd m st w =
    (case create_prop_file e ''../c3dc-model/model-desc/c3dc-model.yml'' '';''
            ''clinicalcommons.ccdi.cancer.gov'' w of
       (w1, Inl err) \<Rightarrow> (w1, Inl err)
     | (w1, Inr pf) \<Rightarrow>
         load_data e b (if endswith_slash mf then mf else mf @ ''/'')
           (Some (''s3://'' @ b @ ''/'' @ (if endswith_slash r then butlast r else r) @ ''/''
              @ ''prefect_c3dc_dataloader_'' @ get_time e @ ''/logs''))
           ''data'' ''tmp'' u ''neo4j'' pw
           [''../c3dc-model/model-desc/c3dc-model.yml'',
            ''../c3dc-model/model-desc/c3dc-model-props.yml'']
           pf ''tmp/data-loader-backups'' cm dr wd True True False True 1000000 m st [] w1)"
  using assms
  by (simp add: c3dc_hub_data_loader_def Let_def load_data_default_user_def
      load_data_default_backup_folder_def load_data_default_no_parents_def
      load_data_default_verbose_def)

lemma flow_aborts:
  assumes "get_git_tag e ''../c3dc-model/'' \<noteq> Inr (Some mt)"
  shows "\<exists>err. c3dc_hub_data_loader e sn mf r mt cm dr wd m st w = (w, Inl err)"
  using assms
  by (auto simp: c3dc_hub_data_loader_def split: sum.splits)

lemma flow_mismatch:
  assumes "get_secret e sn = Inr secret"
    and "dict_getitem secret NEO4J_URI = Inr u"
    and "dict_getitem secret NEO4J_PASSWORD = Inr pw"
    and "dict_getitem secret SUBMISSION_BUCKET = Inr b"
    and "get_git_tag e ''../c3dc-model/'' = Inr pulled" and "pulled \<noteq> Some mt"
  shows "c3dc_hub_data_loader e sn mf r mt cm dr wd m st w =
    (w, Inl (ValueError ''The model branch pulled is not the same as the input model tag''))"
  using assms
  by (auto simp: c3dc_hub_data_loader_def)

lemma load_data_loads:
  "load_data e b f l ds tf u us pw sch pf bf cm dr wd nb np vb y mv m st pl w = (w', res) \<Longrightarrow>
     w' = w\<lparr>loads := loads w @ [Config_init ds u us pw sch pf b f bf cm dr wd nb np vb y mv m st
       l pl tf]\<rparr>"
  by (auto simp: load_data_def Let_def split: option.splits)

lemma flow_loaded:
  assumes "c3dc_hub_data_loader e sn mf r mt cm dr wd m st w = (w', res)"
    and "loads w' \<noteq> loads w"
  shows "\<exists>secret u pw b pf.
      get_secret e sn = Inr secret \<and> dict_getitem secret NEO4J_URI = Inr u
    \<and> dict_getitem secret NEO4J_PASSWORD = Inr pw
    \<and> dict_getitem secret SUBMISSION_BUCKET = Inr b
    \<and> get_git_tag e ''../c3dc-model/'' = Inr (Some mt)
    \<and> loads w' = loads w @ [Config_init ''data'' u ''neo4j'' pw
         [''../c3dc-model/model-desc/c3dc-model.yml'',
          ''../c3dc-model/model-desc/c3dc-model-props.yml'']
         pf b (if endswith_slash mf then mf else mf @ ''/'') ''tmp/data-loader-backups''
         cm dr wd True True False True 1000000 m st
         (Some (''s3://'' @ b @ ''/'' @ (if endswith_slash r then butlast r else r) @ ''/''
              @ ''prefect_c3dc_dataloader_'' @ get_time e @ ''/logs'')) [] ''tmp'']"
proof -
  have tag: "get_git_tag e ''../c3dc-model/'' = Inr (Some mt)"
    using flow_aborts[of e mt sn mf r cm dr wd m st w] assms by auto
  from assms obtain secret where s: "get_secret e sn = Inr secret"
    by (cases "get_secret e sn") (auto simp: c3dc_hub_data_loader_def)
  from assms s obtain u where u: "dict_getitem secret NEO4J_URI = Inr u"
    by (cases "dict_getitem secret NEO4J_URI") (auto simp: c3dc_hub_data_loader_def)
  from assms s u obtain pw where pw: "dict_getitem secret NEO4J_PASSWORD = Inr pw"
    by (cases "dict_getitem secret NEO4J_PASSWORD") (auto simp: c3dc_hub_data_loader_def)
  from assms s u pw obtain b where b: "dict_getitem secret SUBMISSION_BUCKET = Inr b"
    by (cases "dict_getitem secret SUBMISSION_BUCKET") (auto simp: c3dc_hub_data_loader_def)
  obtain w1 r1 where c: "create_prop_file e ''../c3dc-model/model-desc/c3dc-model.yml'' '';''
            ''clinicalcommons.ccdi.cancer.gov'' w = (w1, r1)"
    by (cases "create_prop_file e ''../c3dc-model/model-desc/c3dc-model.yml'' '';''
            ''clinicalcommons.ccdi.cancer.gov'' w")
  have l1: "loads w1 = loads w" using create_prop_file_loads[OF c] .
  show ?thesis
  proof (cases r1)
    case (Inl err)
    with assms(1) c l1 assms(2) show ?thesis
      by (simp add: flow_proceeds[OF s u pw b tag])
  next
    case (Inr pf)
    with assms(1) c have "load_data e b (if endswith_slash mf then mf else mf @ ''/'')
           (Some (''s3://'' @ b @ ''/'' @ (if endswith_slash r then butlast r else r) @ ''/''
              @ ''prefect_c3dc_dataloader_'' @ get_time e @ ''/logs''))
           ''data'' ''tmp'' u ''neo4j'' pw
           [''../c3dc-model/model-desc/c3dc-model.yml'',
            ''../c3dc-model/model-desc/c3dc-model-props.yml'']
           pf ''tmp/data-loader-backups'' cm dr wd True True False True 1000000 m st [] w1
           = (w', res)"
      by (simp add: flow_proceeds[OF s u pw b tag])
    from load_data_loads[OF this] l1 s u pw b tag show ?thesis
      by (intro exI[of _ secret] exI[of _ u] exI[of _ pw] exI[of _ b] exI[of _ pf]) simp
  qed
qed

subsection \<open>The example run, evaluated\<close>

lemmas example_defs = create_prop_file_def example_env_def example_world_def
  example_safe_load_def example_schema_text_def example_schema_def node_plural_def
  example_plural_def ystr_def ydict_def type_mapping_def Let_def

lemma example_create_any:
  "create_prop_file (example_env g) ''../c3dc-model/model-desc/c3dc-model.yml'' d dv
     example_world
   = (example_world\<lparr>files := (files example_world)(''props_file.yaml'' \<mapsto>
        example_dump (Y_map [(S_str ''Properties'', Y_map
          (properties_entries dv d
             [(''diagnosis'', ''diagnoses''), (''study_arm'', ''study_arms'')]
             [(''diagnosis'', ''id''), (''study_arm'', ''id'')]))]))\<rparr>,
      Inr ''props_file.yaml'')"
  by (simp add: example_defs)

lemma example_create_fst:
  "create_prop_file (example_env g) ''../c3dc-model/model-desc/c3dc-model.yml'' '';''
     ''example.org'' example_world
   = (fst (create_prop_file (example_env g) ''../c3dc-model/model-desc/c3dc-model.yml'' '';''
        ''example.org'' example_world), Inr ''props_file.yaml'')"
  by (simp add: example_create_any)

lemma example_yaml_dump: "yaml_dump (example_env g) = example_dump"
  by (simp add: example_env_def)

lemma example_plural_field: "plural (example_env g) = example_plural"
  by (simp add: example_env_def)

lemma example_schema_file:
  "files example_world ''../c3dc-model/model-desc/c3dc-model.yml'' = Some example_schema_text"
  by (simp add: example_world_def)

lemma example_schema_load:
  "yaml_safe_load (example_env g) example_schema_text = Inr example_schema"
  by (simp add: example_env_def example_safe_load_def)

lemma example_schema_nodes:
  "y_getitem example_schema ''Nodes'' = Inr
     (Y_map [(S_str ''diagnosis'', Y_map [(S_str ''Props'', Y_seq [ystr ''diagnosis_id''])]),
             (S_str ''study_arm'', Y_map [(S_str ''Props'', Y_scalar S_null)])])"
  by (simp add: example_schema_def)

lemma example_loads: "loads example_world = []"
  by (simp add: example_world_def)

lemma example_secret:
  "get_secret (example_env g) ''c3dc-dev'' =
     Inr [(''neo4j_uri'', ''bolt://db:7687''), (''neo4j_password'', ''s3cret''),
          (''submission_bucket'', ''c3dc-curation'')]"
  by (simp add: example_env_def)

lemma example_secret_items:
  "dict_getitem [(''neo4j_uri'', ''bolt://db:7687''), (''neo4j_password'', ''s3cret''),
          (''submission_bucket'', ''c3dc-curation'')] NEO4J_URI = Inr ''bolt://db:7687''"
  "dict_getitem [(''neo4j_uri'', ''bolt://db:7687''), (''neo4j_password'', ''s3cret''),
          (''submission_bucket'', ''c3dc-curation'')] NEO4J_PASSWORD = Inr ''s3cret''"
  "dict_getitem [(''neo4j_uri'', ''bolt://db:7687''), (''neo4j_password'', ''s3cret''),
          (''submission_bucket'', ''c3dc-curation'')] SUBMISSION_BUCKET = Inr ''c3dc-curation''"
  by (simp_all add: dict_getitem_def NEO4J_URI_def NEO4J_PASSWORD_def SUBMISSION_BUCKET_def)

lemma example_tags:
  "get_git_tag (example_env (Inr ''v2.3.0\<newline>'')) rp = Inr (Some ''v2.3.0'')"
  "get_git_tag (example_env (Inr ''v2.2.9\<newline>'')) rp = Inr (Some ''v2.2.9'')"
  "get_git_tag (example_env (Inl (CalledProcessError 128))) rp = Inr None"
  by (simp_all add: get_git_tag_def example_env_def strip_def is_space_def)

lemma example_time: "get_time (example_env g) = ''20240307_T090500''"
  by (simp add: get_time_def strftime_def example_env_def zfill_2 zfill_4 digit_char_def)

lemma example_flow:
  "c3dc_hub_data_loader (example_env (Inr ''v2.3.0\<newline>'')) ''c3dc-dev'' mf r ''v2.3.0''
     cm dr wd m st example_world
   = (example_world\<lparr>files := (files example_world)(''props_file.yaml'' \<mapsto>
        example_dump (Y_map [(S_str ''Properties'', Y_map
          (properties_entries ''clinicalcommons.ccdi.cancer.gov'' '';''
             [(''diagnosis'', ''diagnoses''), (''study_arm'', ''study_arms'')]
             [(''diagnosis'', ''id''), (''study_arm'', ''id'')]))])),
        loads := [Config_init ''data'' ''bolt://db:7687'' ''neo4j'' ''s3cret''
         [''../c3dc-model/model-desc/c3dc-model.yml'',
          ''../c3dc-model/model-desc/c3dc-model-props.yml'']
         ''props_file.yaml'' ''c3dc-curation'' (if endswith_slash mf then mf else mf @ ''/'')
         ''tmp/data-loader-backups'' cm dr wd True True False True 1000000 m st
         (Some (''s3://c3dc-curation/'' @ (if endswith_slash r then butlast r else r)
            @ ''/prefect_c3dc_dataloader_20240307_T090500/logs'')) [] ''tmp'']\<rparr>,
      Inr ())"
proof -
  have l: "loader_main (example_env g) = (\<lambda>params. None)" for g
    by (simp add: example_env_def)
  have lw: "loads example_world = []" by (simp add: example_world_def)
  show ?thesis
    by (simp add: flow_proceeds[OF example_secret example_secret_items example_tags(1)]
        example_create_any load_data_def Let_def l lw example_time)
qed

section \<open>The claims\<close>

text \<open>
  \<^bold>\<open>C1\<close> (version guard). Whatever the resolution of the tag gives, if it is not
  exactly the expected tag (no exact tag, another tag, or the resolver itself failing) the
  flow ends in an error and returns the world it was given: no property file has been
  written and the loader has not been called. When the secret has its three keys, the
  error is the \<^verbatim>\<open>ValueError\<close> of the guard. When the resolved tag and the expected tag
  are the same string, the flow goes on: its outcome is that of \<open>create_prop_file\<close>
  followed, if that succeeds, by \<open>load_data\<close>.
\<close>
theorem version_guard:
  "(get_git_tag e ''../c3dc-model/'' \<noteq> Inr (Some mt) \<longrightarrow>
      (\<exists>err. c3dc_hub_data_loader e sn mf r mt cm dr wd m st w = (w, Inl err)))
   \<and> (get_secret e sn = Inr secret \<and> map_of secret ''neo4j_uri'' = Some u
        \<and> map_of secret ''neo4j_password'' = Some pw
        \<and> map_of secret ''submission_bucket'' = Some b
        \<and> get_git_tag e ''../c3dc-model/'' = Inr pulled \<and> pulled \<noteq> Some mt \<longrightarrow>
      c3dc_hub_data_loader e sn mf r mt cm dr wd m st w =
        (w, Inl (ValueError ''The model branch pulled is not the same as the input model tag'')))
   \<and> (get_secret e sn = Inr secret \<and> map_of secret ''neo4j_uri'' = Some u
        \<and> map_of secret ''neo4j_password'' = Some pw
        \<and> map_of secret ''submission_bucket'' = Some b
        \<and> get_git_tag e ''../c3dc-model/'' = Inr (Some mt) \<longrightarrow>
      c3dc_hub_data_loader e sn mf r mt cm dr wd m st w =
        (case create_prop_file e ''../c3dc-model/model-desc/c3dc-model.yml'' '';''
                ''clinicalcommons.ccdi.cancer.gov'' w of
           (w1, Inl err) \<Rightarrow> (w1, Inl err)
         | (w1, Inr pf) \<Rightarrow>
             load_data e b (if endswith_slash mf then mf else mf @ ''/'')
               (Some (''s3://'' @ b @ ''/'' @ (if endswith_slash r then butlast r else r) @ ''/''
                  @ ''prefect_c3dc_dataloader_'' @ get_time e @ ''/logs''))
               ''data'' ''tmp'' u ''neo4j'' pw
               [''../c3dc-model/model-desc/c3dc-model.yml'',
                ''../c3dc-model/model-desc/c3dc-model-props.yml'']
               pf ''tmp/data-loader-backups'' cm dr wd True True False True 1000000 m st [] w1))"
proof (intro conjI impI)
  assume "get_git_tag e ''../c3dc-model/'' \<noteq> Inr (Some mt)"
  then show "\<exists>err. c3dc_hub_data_loader e sn mf r mt cm dr wd m st w = (w, Inl err)"
    by (rule flow_aborts)
next
  assume a: "get_secret e sn = Inr secret \<and> map_of secret ''neo4j_uri'' = Some u
        \<and> map_of secret ''neo4j_password'' = Some pw
        \<and> map_of secret ''submission_bucket'' = Some b
        \<and> get_git_tag e ''../c3dc-model/'' = Inr pulled \<and> pulled \<noteq> Some mt"
  then have "dict_getitem secret NEO4J_URI = Inr u" "dict_getitem secret NEO4J_PASSWORD = Inr pw"
    "dict_getitem secret SUBMISSION_BUCKET = Inr b"
    by (simp_all add: dict_getitem_def NEO4J_URI_def NEO4J_PASSWORD_def SUBMISSION_BUCKET_def)
  with a show "c3dc_hub_data_loader e sn mf r mt cm dr wd m st w =
        (w, Inl (ValueError ''The model branch pulled is not the same as the input model tag''))"
    using flow_mismatch by blast
next
  assume a: "get_secret e sn = Inr secret \<and> map_of secret ''neo4j_uri'' = Some u
        \<and> map_of secret ''neo4j_password'' = Some pw
        \<and> map_of secret ''submission_bucket'' = Some b
        \<and> get_git_tag e ''../c3dc-model/'' = Inr (Some mt)"
  then have "dict_getitem secret NEO4J_URI = Inr u" "dict_getitem secret NEO4J_PASSWORD = Inr pw"
    "dict_getitem secret SUBMISSION_BUCKET = Inr b"
    by (simp_all add: dict_getitem_def NEO4J_URI_def NEO4J_PASSWORD_def SUBMISSION_BUCKET_def)
  with a show "c3dc_hub_data_loader e sn mf r mt cm dr wd m st w =
        (case create_prop_file e ''../c3dc-model/model-desc/c3dc-model.yml'' '';''
                ''clinicalcommons.ccdi.cancer.gov'' w of
           (w1, Inl err) \<Rightarrow> (w1, Inl err)
         | (w1, Inr pf) \<Rightarrow>
             load_data e b (if endswith_slash mf then mf else mf @ ''/'')
               (Some (''s3://'' @ b @ ''/'' @ (if endswith_slash r then butlast r else r) @ ''/''
                  @ ''prefect_c3dc_dataloader_'' @ get_time e @ ''/logs''))
               ''data'' ''tmp'' u ''neo4j'' pw
               [''../c3dc-model/model-desc/c3dc-model.yml'',
                ''../c3dc-model/model-desc/c3dc-model-props.yml'']
               pf ''tmp/data-loader-backups'' cm dr wd True True False True 1000000 m st [] w1)"
    using flow_proceeds by blast
qed

theorem version_guard_witness:
  "c3dc_hub_data_loader (example_env (Inr ''v2.2.9\<newline>'')) ''c3dc-dev'' ''batch1'' ''team''
       ''v2.3.0'' False True False ''upsert'' False example_world
     = (example_world,
        Inl (ValueError ''The model branch pulled is not the same as the input model tag''))
   \<and> c3dc_hub_data_loader (example_env (Inl (CalledProcessError 128))) ''c3dc-dev'' ''batch1''
       ''team'' ''v2.3.0'' False True False ''upsert'' False example_world
     = (example_world,
        Inl (ValueError ''The model branch pulled is not the same as the input model tag''))
   \<and> (\<exists>err. c3dc_hub_data_loader (example_env (Inl (OtherError ''git''))) ''c3dc-dev''
       ''batch1'' ''team'' ''v2.3.0'' False True False ''upsert'' False example_world
     = (example_world, Inl err))
   \<and> snd (c3dc_hub_data_loader (example_env (Inr ''v2.3.0\<newline>'')) ''c3dc-dev'' ''batch1''
       ''team'' ''v2.3.0'' False True False ''upsert'' False example_world) = Inr ()
   \<and> map prop_file (loads (fst (c3dc_hub_data_loader (example_env (Inr ''v2.3.0\<newline>''))
       ''c3dc-dev'' ''batch1'' ''team'' ''v2.3.0'' False True False ''upsert'' False
       example_world))) = [''props_file.yaml'']"
proof -
  let ?sec = "[(''neo4j_uri'', ''bolt://db:7687''), (''neo4j_password'', ''s3cret''),
          (''submission_bucket'', ''c3dc-curation'')]"
  have sec: "map_of ?sec ''neo4j_uri'' = Some ''bolt://db:7687''
    \<and> map_of ?sec ''neo4j_password'' = Some ''s3cret''
    \<and> map_of ?sec ''submission_bucket'' = Some ''c3dc-curation''"
    by simp
  have ne: "Some ''v2.2.9'' \<noteq> Some ''v2.3.0''" "None \<noteq> Some ''v2.3.0''"
    by simp_all
  have other: "get_git_tag (example_env (Inl (OtherError ''git''))) ''../c3dc-model/''
      \<noteq> Inr (Some ''v2.3.0'')"
    by (simp add: get_git_tag_def example_env_def)
  have l: "loader_main (example_env g) = (\<lambda>params. None)" for g
    by (simp add: example_env_def)
  have lw: "loads example_world = []" by (simp add: example_world_def)
  from version_guard[of "example_env (Inr ''v2.2.9\<newline>'')" "''v2.3.0''" "''c3dc-dev''"
      "''batch1''" "''team''" False True False "''upsert''" False example_world ?sec
      "''bolt://db:7687''" "''s3cret''" "''c3dc-curation''" "Some ''v2.2.9''"]
    example_secret example_tags(2) sec ne
  have a: "c3dc_hub_data_loader (example_env (Inr ''v2.2.9\<newline>'')) ''c3dc-dev'' ''batch1''
       ''team'' ''v2.3.0'' False True False ''upsert'' False example_world
     = (example_world,
        Inl (ValueError ''The model branch pulled is not the same as the input model tag''))"
    by blast
  from version_guard[of "example_env (Inl (CalledProcessError 128))" "''v2.3.0''" "''c3dc-dev''"
      "''batch1''" "''team''" False True False "''upsert''" False example_world ?sec
      "''bolt://db:7687''" "''s3cret''" "''c3dc-curation''" None]
    example_secret example_tags(3) sec ne
  have b: "c3dc_hub_data_loader (example_env (Inl (CalledProcessError 128))) ''c3dc-dev''
       ''batch1'' ''team'' ''v2.3.0'' False True False ''upsert'' False example_world
     = (example_world,
        Inl (ValueError ''The model branch pulled is not the same as the input model tag''))"
    by blast
  from version_guard[of "example_env (Inl (OtherError ''git''))" "''v2.3.0''" "''c3dc-dev''"
      "''batch1''" "''team''" False True False "''upsert''" False example_world] other
  have c: "\<exists>err. c3dc_hub_data_loader (example_env (Inl (OtherError ''git''))) ''c3dc-dev''
       ''batch1'' ''team'' ''v2.3.0'' False True False ''upsert'' False example_world
     = (example_world, Inl err)"
    by blast
  from version_guard[of "example_env (Inr ''v2.3.0\<newline>'')" "''v2.3.0''" "''c3dc-dev''"
      "''batch1''" "''team''" False True False "''upsert''" False example_world ?sec
      "''bolt://db:7687''" "''s3cret''" "''c3dc-curation''"]
    example_secret example_tags(1) sec
  have d: "c3dc_hub_data_loader (example_env (Inr ''v2.3.0\<newline>'')) ''c3dc-dev'' ''batch1''
       ''team'' ''v2.3.0'' False True False ''upsert'' False example_world
     = (case create_prop_file (example_env (Inr ''v2.3.0\<newline>''))
                ''../c3dc-model/model-desc/c3dc-model.yml'' '';''
                ''clinicalcommons.ccdi.cancer.gov'' example_world of
           (w1, Inl err) \<Rightarrow> (w1, Inl err)
         | (w1, Inr pf) \<Rightarrow>
             load_data (example_env (Inr ''v2.3.0\<newline>'')) ''c3dc-curation''
               (if endswith_slash ''batch1'' then ''batch1'' else ''batch1'' @ ''/'')
               (Some (''s3://'' @ ''c3dc-curation'' @ ''/''
                  @ (if endswith_slash ''team'' then butlast ''team'' else ''team'') @ ''/''
                  @ ''prefect_c3dc_dataloader_'' @ get_time (example_env (Inr ''v2.3.0\<newline>''))
                  @ ''/logs''))
               ''data'' ''tmp'' ''bolt://db:7687'' ''neo4j'' ''s3cret''
               [''../c3dc-model/model-desc/c3dc-model.yml'',
                ''../c3dc-model/model-desc/c3dc-model-props.yml'']
               pf ''tmp/data-loader-backups'' False True False True True False True 1000000
               ''upsert'' False [] w1)"
    by blast
  have e: "snd (c3dc_hub_data_loader (example_env (Inr ''v2.3.0\<newline>'')) ''c3dc-dev''
       ''batch1'' ''team'' ''v2.3.0'' False True False ''upsert'' False example_world) = Inr ()"
    by (simp add: d example_create_any load_data_def Let_def l)
  have f: "map prop_file (loads (fst (c3dc_hub_data_loader (example_env (Inr ''v2.3.0\<newline>''))
       ''c3dc-dev'' ''batch1'' ''team'' ''v2.3.0'' False True False ''upsert'' False
       example_world))) = [''props_file.yaml'']"
    by (simp add: d example_create_any load_data_def Let_def l lw Config_init_def)
  from a b c e f show ?thesis by blast
qed

text \<open>
  \<^bold>\<open>C2\<close> (plural forms). For every node name of the model, the \<open>plurals\<close> entry of the
  written document maps the name as follows: a name \<open>pre_lw\<close> whose last segment \<open>lw\<close> has
  no separator goes to \<open>pre_\<close> followed by the plural of \<open>lw\<close>; a name without
  separator goes to its own plural.
\<close>
theorem plural_of_node:
  assumes "files w my = Some text" and "yaml_safe_load e text = Inr md"
    and "y_getitem md ''Nodes'' = Inr nodes" and "y_keys nodes = Inr ks"
    and "S_str node \<in> set ks"
    and "create_prop_file e my d dv w = (w', Inr p)"
  shows "\<exists>props pl.
      files w' p = Some (yaml_dump e (Y_map [(S_str ''Properties'', Y_map props)]))
    \<and> map_of props (S_str ''plurals'') = Some (ydict pl)
    \<and> (\<forall>pre lw. node = pre @ ''_'' @ lw \<and> CHR ''_'' \<notin> set lw
          \<longrightarrow> map_of pl node = Some (pre @ ''_'' @ plural e lw))
    \<and> (CHR ''_'' \<in> set node
          \<longrightarrow> (\<exists>pre lw. node = pre @ ''_'' @ lw \<and> CHR ''_'' \<notin> set lw))
    \<and> (CHR ''_'' \<notin> set node \<longrightarrow> map_of pl node = Some (plural e node))"
proof -
  from create_prop_file_Inr[OF assms(6)] assms(1-4)
  obtain pd idd where loop: "node_loop e ks ([], []) = Inr (pd, idd)"
    and p: "p = ''props_file.yaml''"
    and w': "w' = w\<lparr>files := (files w)(''props_file.yaml'' \<mapsto> yaml_dump e
              (Y_map [(S_str ''Properties'', Y_map (properties_entries dv d pd idd))]))\<rparr>"
    by auto
  from node_loop_empty[OF loop] obtain names where ks: "ks = map S_str names"
    and pd: "\<forall>n. map_of pd n = (if n \<in> set names then Some (node_plural e n) else None)"
    by blast
  from assms(5) ks have "node \<in> set names" by auto
  with pd have look: "map_of pd node = Some (node_plural e node)" by simp
  have decompose: "CHR ''_'' \<in> set node
      \<longrightarrow> (\<exists>pre lw. node = pre @ ''_'' @ lw \<and> CHR ''_'' \<notin> set lw)"
    using split_list_last[of "CHR ''_''" node] by auto
  have compound: "\<forall>pre lw. node = pre @ ''_'' @ lw \<and> CHR ''_'' \<notin> set lw
          \<longrightarrow> map_of pd node = Some (pre @ ''_'' @ plural e lw)"
    using look by (auto simp: node_plural_compound)
  have simple: "CHR ''_'' \<notin> set node \<longrightarrow> map_of pd node = Some (plural e node)"
    using look by (simp add: node_plural_simple)
  have written: "files w' p = Some (yaml_dump e
      (Y_map [(S_str ''Properties'', Y_map (properties_entries dv d pd idd))]))"
    and entry: "map_of (properties_entries dv d pd idd) (S_str ''plurals'') = Some (ydict pd)"
    by (simp_all add: p w')
  from written entry compound decompose simple show ?thesis
    by (intro exI[of _ "properties_entries dv d pd idd"] exI[of _ pd] conjI)
qed

theorem plural_of_node_witness:
  "(\<exists>props pl. files (fst (create_prop_file (example_env (Inr ''v2.3.0''))
         ''../c3dc-model/model-desc/c3dc-model.yml'' '';'' ''example.org'' example_world))
         ''props_file.yaml''
        = Some (example_dump (Y_map [(S_str ''Properties'', Y_map props)]))
      \<and> map_of props (S_str ''plurals'') = Some (ydict pl)
      \<and> map_of pl ''study_arm'' = Some ''study_arms'')
   \<and> (\<exists>props pl. files (fst (create_prop_file (example_env (Inr ''v2.3.0''))
         ''../c3dc-model/model-desc/c3dc-model.yml'' '';'' ''example.org'' example_world))
         ''props_file.yaml''
        = Some (example_dump (Y_map [(S_str ''Properties'', Y_map props)]))
      \<and> map_of props (S_str ''plurals'') = Some (ydict pl)
      \<and> map_of pl ''diagnosis'' = Some ''diagnoses'')"
proof -
  let ?e = "example_env (Inr ''v2.3.0'')"
  let ?ks = "[S_str ''diagnosis'', S_str ''study_arm'']"
  let ?w = "fst (create_prop_file ?e
         ''../c3dc-model/model-desc/c3dc-model.yml'' '';'' ''example.org'' example_world)"
  have keys: "y_keys (Y_map [(S_str ''diagnosis'', Y_map [(S_str ''Props'', Y_seq [ystr ''diagnosis_id''])]),
             (S_str ''study_arm'', Y_map [(S_str ''Props'', Y_scalar S_null)])]) = Inr ?ks"
    by simp
  have a: "S_str ''study_arm'' \<in> set ?ks" and b: "S_str ''diagnosis'' \<in> set ?ks"
    by simp_all
  have parts: "''study_arm'' = ''study'' @ ''_'' @ ''arm'' \<and> CHR ''_'' \<notin> set ''arm''"
    and plain: "CHR ''_'' \<notin> set ''diagnosis''"
    by simp_all
  from plural_of_node[OF example_schema_file example_schema_load example_schema_nodes keys a
      example_create_fst, of "Inr ''v2.3.0''"]
  obtain props pl where
    1: "files ?w ''props_file.yaml''
        = Some (yaml_dump ?e (Y_map [(S_str ''Properties'', Y_map props)]))"
    and 2: "map_of props (S_str ''plurals'') = Some (ydict pl)"
    and 3: "\<forall>pre lw. ''study_arm'' = pre @ ''_'' @ lw \<and> CHR ''_'' \<notin> set lw
          \<longrightarrow> map_of pl ''study_arm'' = Some (pre @ ''_'' @ plural ?e lw)"
    by blast
  from 3 parts have "map_of pl ''study_arm'' = Some (''study'' @ ''_'' @ plural ?e ''arm'')"
    by blast
  then have 4: "map_of pl ''study_arm'' = Some ''study_arms''"
    by (simp add: example_plural_field example_plural_def)
  from 1 2 4 have one: "\<exists>props pl. files ?w ''props_file.yaml''
        = Some (example_dump (Y_map [(S_str ''Properties'', Y_map props)]))
      \<and> map_of props (S_str ''plurals'') = Some (ydict pl)
      \<and> map_of pl ''study_arm'' = Some ''study_arms''"
    unfolding example_yaml_dump by blast
  from plural_of_node[OF example_schema_file example_schema_load example_schema_nodes keys b
      example_create_fst, of "Inr ''v2.3.0''"]
  obtain props' pl' where
    5: "files ?w ''props_file.yaml''
        = Some (yaml_dump ?e (Y_map [(S_str ''Properties'', Y_map props')]))"
    and 6: "map_of props' (S_str ''plurals'') = Some (ydict pl')"
    and 7: "CHR ''_'' \<notin> set ''diagnosis''
          \<longrightarrow> map_of pl' ''diagnosis'' = Some (plural ?e ''diagnosis'')"
    by blast
  from 7 plain have 8: "map_of pl' ''diagnosis'' = Some ''diagnoses''"
    by (simp add: example_plural_field example_plural_def)
  from 5 6 8 have two: "\<exists>props pl. files ?w ''props_file.yaml''
        = Some (example_dump (Y_map [(S_str ''Properties'', Y_map props)]))
      \<and> map_of props (S_str ''plurals'') = Some (ydict pl)
      \<and> map_of pl ''diagnosis'' = Some ''diagnoses''"
    unfolding example_yaml_dump by blast
  from one two show ?thesis by blast
qed

text \<open>
  \<^bold>\<open>C3\<close>, as amended. The \<open>type_mapping\<close> entry of the written document is the same
  table of nine entries for every model: the keys \<open>string\<close>, \<open>number\<close>, \<open>integer\<close>,
  \<open>boolean\<close>, \<open>array\<close>, \<open>object\<close>, \<open>datetime\<close>, \<open>date\<close> and the placeholder
  \<open>TBD\<close>, which goes to \<open>String\<close>. The table has no other key and no default.
\<close>
theorem type_mapping_fixed:
  assumes "create_prop_file e my d dv w = (w', Inr p)"
  shows "\<exists>props. files w' p = Some (yaml_dump e (Y_map [(S_str ''Properties'', Y_map props)]))
    \<and> map_of props (S_str ''type_mapping'') = Some (Y_map
         [(S_str ''string'', Y_scalar (S_str ''String'')),
          (S_str ''number'', Y_scalar (S_str ''Float'')),
          (S_str ''integer'', Y_scalar (S_str ''Int'')),
          (S_str ''boolean'', Y_scalar (S_str ''Boolean'')),
          (S_str ''array'', Y_scalar (S_str ''Array'')),
          (S_str ''object'', Y_scalar (S_str ''Object'')),
          (S_str ''datetime'', Y_scalar (S_str ''DateTime'')),
          (S_str ''date'', Y_scalar (S_str ''Date'')),
          (S_str ''TBD'', Y_scalar (S_str ''String''))])"
proof -
  from create_prop_file_Inr[OF assms] obtain pd idd where
    "p = ''props_file.yaml''"
    "w' = w\<lparr>files := (files w)(''props_file.yaml'' \<mapsto> yaml_dump e
              (Y_map [(S_str ''Properties'', Y_map (properties_entries dv d pd idd))]))\<rparr>"
    by blast
  then show ?thesis
    by (intro exI[of _ "properties_entries dv d pd idd"])
       (simp add: ydict_def ystr_def type_mapping_def)
qed

theorem type_mapping_fixed_witness:
  "\<exists>props. files (fst (create_prop_file (example_env (Inr ''v2.3.0''))
         ''../c3dc-model/model-desc/c3dc-model.yml'' '';'' ''example.org'' example_world))
         ''props_file.yaml''
        = Some (example_dump (Y_map [(S_str ''Properties'', Y_map props)]))
    \<and> map_of props (S_str ''type_mapping'') = Some (Y_map
         [(S_str ''string'', Y_scalar (S_str ''String'')),
          (S_str ''number'', Y_scalar (S_str ''Float'')),
          (S_str ''integer'', Y_scalar (S_str ''Int'')),
          (S_str ''boolean'', Y_scalar (S_str ''Boolean'')),
          (S_str ''array'', Y_scalar (S_str ''Array'')),
          (S_str ''object'', Y_scalar (S_str ''Object'')),
          (S_str ''datetime'', Y_scalar (S_str ''DateTime'')),
          (S_str ''date'', Y_scalar (S_str ''Date'')),
          (S_str ''TBD'', Y_scalar (S_str ''String''))])"
  using type_mapping_fixed[OF example_create_fst[of "Inr ''v2.3.0''"]]
  by (simp only: example_yaml_dump)

text \<open>
  \<^bold>\<open>C3\<close> as stated fails: the table has no entry for the tag \<open>unknown\<close>.
\<close>
theorem type_mapping_unknown_counterexample:
  "map_of type_mapping ''unknown'' = None"
  by (simp add: type_mapping_def)

text \<open>
  \<^bold>\<open>C4\<close> (identifier fields). The \<open>id_fields\<close> entry of the written document maps
  every node name of the model to \<open>id\<close>, and has no other entry.
\<close>
theorem id_fields_fixed:
  assumes "files w my = Some text" and "yaml_safe_load e text = Inr md"
    and "y_getitem md ''Nodes'' = Inr nodes" and "y_keys nodes = Inr ks"
    and "create_prop_file e my d dv w = (w', Inr p)"
  shows "\<exists>props idf.
      files w' p = Some (yaml_dump e (Y_map [(S_str ''Properties'', Y_map props)]))
    \<and> map_of props (S_str ''id_fields'') = Some (ydict idf)
    \<and> (\<forall>k \<in> set ks. \<exists>node. k = S_str node \<and> map_of idf node = Some ''id'')
    \<and> (\<forall>(node, field) \<in> set idf. field = ''id'' \<and> S_str node \<in> set ks)"
proof -
  from create_prop_file_Inr[OF assms(5)] assms(1-4)
  obtain pd idd where loop: "node_loop e ks ([], []) = Inr (pd, idd)"
    and p: "p = ''props_file.yaml''"
    and w': "w' = w\<lparr>files := (files w)(''props_file.yaml'' \<mapsto> yaml_dump e
              (Y_map [(S_str ''Properties'', Y_map (properties_entries dv d pd idd))]))\<rparr>"
    by auto
  from node_loop_empty[OF loop] obtain names where ks: "ks = map S_str names"
    and idd: "\<forall>n. map_of idd n = (if n \<in> set names then Some ''id'' else None)"
    and dom: "fst ` set idd = set names"
    and dist: "distinct (map fst idd)"
    by blast
  have fwd: "\<forall>k \<in> set ks. \<exists>node. k = S_str node \<and> map_of idd node = Some ''id''"
    using ks idd by auto
  have bwd: "\<forall>(node, field) \<in> set idd. field = ''id'' \<and> S_str node \<in> set ks"
  proof (clarify)
    fix node field assume mem: "(node, field) \<in> set idd"
    then have "map_of idd node = Some field" using dist by simp
    moreover from mem dom have "node \<in> set names" by force
    ultimately show "field = ''id'' \<and> S_str node \<in> set ks" using idd ks by auto
  qed
  show ?thesis
    using fwd bwd
    by (intro exI[of _ "properties_entries dv d pd idd"] exI[of _ idd]) (simp add: p w')
qed

theorem id_fields_fixed_witness:
  "\<exists>props idf. files (fst (create_prop_file (example_env (Inr ''v2.3.0''))
         ''../c3dc-model/model-desc/c3dc-model.yml'' '';'' ''example.org'' example_world))
         ''props_file.yaml''
        = Some (example_dump (Y_map [(S_str ''Properties'', Y_map props)]))
      \<and> map_of props (S_str ''id_fields'') = Some (ydict idf)
      \<and> map_of idf ''diagnosis'' = Some ''id'' \<and> map_of idf ''study_arm'' = Some ''id''"
proof -
  let ?ks = "[S_str ''diagnosis'', S_str ''study_arm'']"
  have keys: "y_keys (Y_map [(S_str ''diagnosis'', Y_map [(S_str ''Props'', Y_seq [ystr ''diagnosis_id''])]),
             (S_str ''study_arm'', Y_map [(S_str ''Props'', Y_scalar S_null)])]) = Inr ?ks"
    by simp
  from id_fields_fixed[OF example_schema_file example_schema_load example_schema_nodes keys
      example_create_fst, of "Inr ''v2.3.0''"]
  show ?thesis
    by (fastforce simp: example_yaml_dump)
qed

text \<open>
  \<^bold>\<open>C5\<close>, as amended. A successful derivation returns the fixed path
  \<^verbatim>\<open>props_file.yaml\<close>, the document is what that path holds afterwards, and no other
  file changes. Whatever the path held before is overwritten: with another prior content
  (or none) the outcome is the same.
\<close>
theorem prop_file_location:
  "(create_prop_file e my d dv w = (w', Inr p) \<longrightarrow>
      p = ''props_file.yaml''
    \<and> (\<exists>props. files w' p = Some (yaml_dump e (Y_map [(S_str ''Properties'', Y_map props)])))
    \<and> (\<forall>q. q \<noteq> p \<longrightarrow> files w' q = files w q)
    \<and> loads w' = loads w)
   \<and> (create_prop_file e my d dv w = (w', Inr p) \<and> my \<noteq> ''props_file.yaml'' \<longrightarrow>
        create_prop_file e my d dv (w\<lparr>files := (files w)(''props_file.yaml'' := prior)\<rparr>)
        = (w', Inr p))"
proof (intro conjI impI)
  assume run: "create_prop_file e my d dv w = (w', Inr p)"
  from create_prop_file_Inr[OF run] obtain pd idd where p: "p = ''props_file.yaml''"
    and w': "w' = w\<lparr>files := (files w)(''props_file.yaml'' \<mapsto> yaml_dump e
              (Y_map [(S_str ''Properties'', Y_map (properties_entries dv d pd idd))]))\<rparr>"
    by blast
  show "p = ''props_file.yaml''" by (rule p)
  show "\<exists>props. files w' p = Some (yaml_dump e (Y_map [(S_str ''Properties'', Y_map props)]))"
    by (intro exI[of _ "properties_entries dv d pd idd"]) (simp add: p w')
  show "\<forall>q. q \<noteq> p \<longrightarrow> files w' q = files w q" by (simp add: p w')
  show "loads w' = loads w" by (simp add: w')
next
  assume "create_prop_file e my d dv w = (w', Inr p) \<and> my \<noteq> ''props_file.yaml''"
  then show "create_prop_file e my d dv (w\<lparr>files := (files w)(''props_file.yaml'' := prior)\<rparr>)
        = (w', Inr p)"
    by (auto simp: create_prop_file_def Let_def split: option.splits sum.splits prod.splits)
qed

theorem prop_file_location_witness:
  "snd (create_prop_file (example_env (Inr ''v2.3.0'')) ''../c3dc-model/model-desc/c3dc-model.yml''
      '';'' ''example.org'' example_world) = Inr ''props_file.yaml''
   \<and> files example_world ''props_file.yaml'' = Some ''stale''
   \<and> (\<exists>props. files (fst (create_prop_file (example_env (Inr ''v2.3.0''))
        ''../c3dc-model/model-desc/c3dc-model.yml'' '';'' ''example.org'' example_world))
        ''props_file.yaml'' = Some (example_dump (Y_map [(S_str ''Properties'', Y_map props)])))
   \<and> files (fst (create_prop_file (example_env (Inr ''v2.3.0''))
        ''../c3dc-model/model-desc/c3dc-model.yml'' '';'' ''example.org'' example_world))
        ''broken.yml'' = Some ''Nodes: {''
   \<and> create_prop_file (example_env (Inr ''v2.3.0'')) ''../c3dc-model/model-desc/c3dc-model.yml''
        '';'' ''example.org''
        (example_world\<lparr>files := (files example_world)(''props_file.yaml'' := None)\<rparr>)
      = create_prop_file (example_env (Inr ''v2.3.0''))
          ''../c3dc-model/model-desc/c3dc-model.yml'' '';'' ''example.org'' example_world"
proof -
  let ?run = "create_prop_file (example_env (Inr ''v2.3.0''))
        ''../c3dc-model/model-desc/c3dc-model.yml'' '';'' ''example.org'' example_world"
  have run: "?run = (fst ?run, Inr ''props_file.yaml'')"
    by (rule example_create_fst)
  have ne: "''../c3dc-model/model-desc/c3dc-model.yml'' \<noteq> ''props_file.yaml''"
    and ne2: "''broken.yml'' \<noteq> ''props_file.yaml''"
    by simp_all
  have old: "files example_world ''props_file.yaml'' = Some ''stale''"
    and other: "files example_world ''broken.yml'' = Some ''Nodes: {''"
    by (simp_all add: example_world_def)
  note inst = prop_file_location[of "example_env (Inr ''v2.3.0'')"
      "''../c3dc-model/model-desc/c3dc-model.yml''" "'';''" "''example.org''" example_world
      "fst ?run" "''props_file.yaml''" None]
  from inst run have a: "\<exists>props. files (fst ?run) ''props_file.yaml''
      = Some (example_dump (Y_map [(S_str ''Properties'', Y_map props)]))"
    by (simp only: example_yaml_dump)
  from inst run ne2 other have b: "files (fst ?run) ''broken.yml'' = Some ''Nodes: {''"
    by metis
  from inst run ne have c: "create_prop_file (example_env (Inr ''v2.3.0''))
        ''../c3dc-model/model-desc/c3dc-model.yml'' '';'' ''example.org''
        (example_world\<lparr>files := (files example_world)(''props_file.yaml'' := None)\<rparr>) = ?run"
    by metis
  have s: "snd ?run = Inr ''props_file.yaml''"
    by (simp add: example_create_any)
  from s old a b c show ?thesis by blast
qed

text \<open>
  \<^bold>\<open>C5\<close> as stated fails: no argument of the caller changes the path.
\<close>
theorem prop_file_path_not_overridable_counterexample:
  "\<not> (\<exists>e my d dv w w' p. create_prop_file e my d dv w = (w', Inr p) \<and> p \<noteq> ''props_file.yaml'')"
  using create_prop_file_Inr by blast

text \<open>
  \<^bold>\<open>C6\<close>, as amended. A call of the flow whose \<open>mode\<close> is not one of \<open>upsert\<close>,
  \<open>new\<close>, \<open>delete\<close> is refused by the parameter check: it ends in
  \<^verbatim>\<open>ParameterTypeError\<close> with the world as it was, so no configuration is assembled. In
  every other call, the configuration handed to the loader carries \<open>cheat_mode\<close>,
  \<open>dry_run\<close>, \<open>wipe_db\<close>, \<open>mode\<close> and \<open>split_transaction\<close> as the caller gave them,
  and has \<open>no_backup\<close> and \<open>yes\<close> true, \<open>max_violations\<close> 1000000 and no plugin.
\<close>
theorem run_configuration_flags:
  "(m \<notin> set ModeDropDownChoices \<longrightarrow>
      c3dc_hub_data_loader_flow e sn mf r mt cm dr wd m st w
      = (w, Inl (ParameterTypeError ''mode'')))
   \<and> (c3dc_hub_data_loader_flow e sn mf r mt cm dr wd m st w = (w', res)
        \<and> loads w' \<noteq> loads w \<longrightarrow>
      m \<in> set ModeDropDownChoices
      \<and> (\<exists>cfg. loads w' = loads w @ [cfg]
        \<and> cheat_mode cfg = cm \<and> dry_run cfg = dr \<and> wipe_db cfg = wd \<and> mode cfg = m
        \<and> split_transactions cfg = st
        \<and> no_backup cfg = True \<and> yes cfg = True \<and> max_violations cfg = 1000000
        \<and> plugins cfg = []))"
proof (intro conjI impI)
  assume "m \<notin> set ModeDropDownChoices"
  then show "c3dc_hub_data_loader_flow e sn mf r mt cm dr wd m st w
      = (w, Inl (ParameterTypeError ''mode''))"
    by (simp add: c3dc_hub_data_loader_flow_def)
next
  assume a: "c3dc_hub_data_loader_flow e sn mf r mt cm dr wd m st w = (w', res)
        \<and> loads w' \<noteq> loads w"
  then show valid: "m \<in> set ModeDropDownChoices"
    by (auto simp: c3dc_hub_data_loader_flow_def split: if_splits)
  with a have run: "c3dc_hub_data_loader e sn mf r mt cm dr wd m st w = (w', res)"
    and changed: "loads w' \<noteq> loads w"
    by (simp_all add: c3dc_hub_data_loader_flow_def)
  from flow_loaded[OF run changed] obtain u pw b pf where
    "loads w' = loads w @ [Config_init ''data'' u ''neo4j'' pw
         [''../c3dc-model/model-desc/c3dc-model.yml'',
          ''../c3dc-model/model-desc/c3dc-model-props.yml'']
         pf b (if endswith_slash mf then mf else mf @ ''/'') ''tmp/data-loader-backups''
         cm dr wd True True False True 1000000 m st
         (Some (''s3://'' @ b @ ''/'' @ (if endswith_slash r then butlast r else r) @ ''/''
              @ ''prefect_c3dc_dataloader_'' @ get_time e @ ''/logs'')) [] ''tmp'']"
    by blast
  then show "\<exists>cfg. loads w' = loads w @ [cfg]
        \<and> cheat_mode cfg = cm \<and> dry_run cfg = dr \<and> wipe_db cfg = wd \<and> mode cfg = m
        \<and> split_transactions cfg = st
        \<and> no_backup cfg = True \<and> yes cfg = True \<and> max_violations cfg = 1000000
        \<and> plugins cfg = []"
    by (simp add: Config_init_def)
qed

theorem run_configuration_flags_witness:
  "''not-a-mode'' \<notin> set ModeDropDownChoices
   \<and> c3dc_hub_data_loader_flow (example_env (Inr ''v2.3.0\<newline>'')) ''c3dc-dev''
       ''batch1'' ''team'' ''v2.3.0'' False True False ''not-a-mode'' True example_world
     = (example_world, Inl (ParameterTypeError ''mode''))
   \<and> loads (fst (c3dc_hub_data_loader_flow (example_env (Inr ''v2.3.0\<newline>'')) ''c3dc-dev''
       ''batch1'' ''team'' ''v2.3.0'' False True False ''delete'' True example_world))
     \<noteq> loads example_world
   \<and> ''delete'' \<in> set ModeDropDownChoices
   \<and> (\<exists>cfg. loads (fst (c3dc_hub_data_loader_flow (example_env (Inr ''v2.3.0\<newline>''))
       ''c3dc-dev'' ''batch1'' ''team'' ''v2.3.0'' False True False ''delete'' True
       example_world)) = loads example_world @ [cfg]
    \<and> cheat_mode cfg = False \<and> dry_run cfg = True \<and> wipe_db cfg = False
    \<and> mode cfg = ''delete'' \<and> split_transactions cfg = True
    \<and> no_backup cfg = True \<and> yes cfg = True \<and> max_violations cfg = 1000000
    \<and> plugins cfg = [])"
proof -
  let ?e = "example_env (Inr ''v2.3.0\<newline>'')"
  let ?run = "c3dc_hub_data_loader_flow ?e ''c3dc-dev''
       ''batch1'' ''team'' ''v2.3.0'' False True False ''delete'' True example_world"
  have bad: "''not-a-mode'' \<notin> set ModeDropDownChoices"
    by (simp add: ModeDropDownChoices_def)
  from run_configuration_flags[of "''not-a-mode''" ?e "''c3dc-dev''" "''batch1''" "''team''"
      "''v2.3.0''" False True False True example_world] bad
  have refused: "c3dc_hub_data_loader_flow ?e ''c3dc-dev''
       ''batch1'' ''team'' ''v2.3.0'' False True False ''not-a-mode'' True example_world
     = (example_world, Inl (ParameterTypeError ''mode''))"
    by blast
  have run: "?run = (fst ?run, snd ?run)" by simp
  have changed: "loads (fst ?run) \<noteq> loads example_world"
    by (simp add: c3dc_hub_data_loader_flow_def ModeDropDownChoices_def example_flow
        example_loads)
  from run_configuration_flags[of "''delete''" ?e "''c3dc-dev''" "''batch1''" "''team''"
      "''v2.3.0''" False True False True example_world "fst ?run" "snd ?run"] run changed
  have ok: "''delete'' \<in> set ModeDropDownChoices
   \<and> (\<exists>cfg. loads (fst ?run) = loads example_world @ [cfg]
    \<and> cheat_mode cfg = False \<and> dry_run cfg = True \<and> wipe_db cfg = False
    \<and> mode cfg = ''delete'' \<and> split_transactions cfg = True
    \<and> no_backup cfg = True \<and> yes cfg = True \<and> max_violations cfg = 1000000
    \<and> plugins cfg = [])"
    by blast
  from bad refused changed ok show ?thesis by blast
qed

text \<open>
  \<^bold>\<open>C6\<close> as stated fails: \<open>mode\<close> is validated. The function alone would hand the mode
  \<open>not-a-mode\<close> to the loader, but the call of the flow is refused before it runs and the
  loader is never called.
\<close>
theorem mode_validated_counterexample:
  "map mode (loads (fst (c3dc_hub_data_loader (example_env (Inr ''v2.3.0\<newline>'')) ''c3dc-dev''
       ''batch1'' ''team'' ''v2.3.0'' False True False ''not-a-mode'' True example_world)))
     = [''not-a-mode'']
   \<and> c3dc_hub_data_loader_flow (example_env (Inr ''v2.3.0\<newline>'')) ''c3dc-dev''
       ''batch1'' ''team'' ''v2.3.0'' False True False ''not-a-mode'' True example_world
     = (example_world, Inl (ParameterTypeError ''mode''))
   \<and> loads example_world = []"
  by (simp add: c3dc_hub_data_loader_flow_def ModeDropDownChoices_def example_flow
      example_loads Config_init_def)

text \<open>
  \<^bold>\<open>C7\<close>, as amended. For a value that does not itself end in \<^verbatim>\<open>/\<close>, passing it with
  one \<^verbatim>\<open>/\<close> appended, as the metadata folder or as the runner, gives the same run: the
  folder gets the separator when it lacks it, the runner loses one when it has it.
\<close>
theorem trailing_separator_normalized:
  "(\<not> endswith_slash v \<longrightarrow>
      c3dc_hub_data_loader e sn (v @ ''/'') r mt cm dr wd m st w
      = c3dc_hub_data_loader e sn v r mt cm dr wd m st w)
   \<and> (\<not> endswith_slash v \<longrightarrow>
      c3dc_hub_data_loader e sn mf (v @ ''/'') mt cm dr wd m st w
      = c3dc_hub_data_loader e sn mf v mt cm dr wd m st w)"
  using endswith_slash_append[of v]
  by (auto simp: c3dc_hub_data_loader_def Let_def split: sum.splits)

theorem trailing_separator_normalized_witness:
  "\<not> endswith_slash ''batch1'' \<and> \<not> endswith_slash ''team''
   \<and> c3dc_hub_data_loader (example_env (Inr ''v2.3.0\<newline>'')) ''c3dc-dev'' ''batch1/'' ''team''
        ''v2.3.0'' False True False ''upsert'' False example_world
     = c3dc_hub_data_loader (example_env (Inr ''v2.3.0\<newline>'')) ''c3dc-dev'' ''batch1'' ''team''
        ''v2.3.0'' False True False ''upsert'' False example_world
   \<and> c3dc_hub_data_loader (example_env (Inr ''v2.3.0\<newline>'')) ''c3dc-dev'' ''batch1'' ''team/''
        ''v2.3.0'' False True False ''upsert'' False example_world
     = c3dc_hub_data_loader (example_env (Inr ''v2.3.0\<newline>'')) ''c3dc-dev'' ''batch1'' ''team''
        ''v2.3.0'' False True False ''upsert'' False example_world
   \<and> map s3_folder (loads (fst (c3dc_hub_data_loader (example_env (Inr ''v2.3.0\<newline>''))
        ''c3dc-dev'' ''batch1'' ''team'' ''v2.3.0'' False True False ''upsert'' False
        example_world))) = [''batch1/'']
   \<and> map upload_log_dir (loads (fst (c3dc_hub_data_loader (example_env (Inr ''v2.3.0\<newline>''))
        ''c3dc-dev'' ''batch1'' ''team'' ''v2.3.0'' False True False ''upsert'' False
        example_world)))
      = [Some ''s3://c3dc-curation/team/prefect_c3dc_dataloader_20240307_T090500/logs'']"
proof -
  let ?e = "example_env (Inr ''v2.3.0\<newline>'')"
  have a: "\<not> endswith_slash ''batch1''" and b: "\<not> endswith_slash ''team''"
    by (simp_all add: endswith_slash_def)
  from trailing_separator_normalized[of "''batch1''" ?e "''c3dc-dev''" "''team''" "''v2.3.0''"
      False True False "''upsert''" False example_world] a
  have c: "c3dc_hub_data_loader ?e ''c3dc-dev'' ''batch1/'' ''team''
        ''v2.3.0'' False True False ''upsert'' False example_world
     = c3dc_hub_data_loader ?e ''c3dc-dev'' ''batch1'' ''team''
        ''v2.3.0'' False True False ''upsert'' False example_world"
    by simp
  from trailing_separator_normalized[of "''team''" ?e "''c3dc-dev''" _ "''v2.3.0''"
      False True False "''upsert''" False example_world "''batch1''"] b
  have d: "c3dc_hub_data_loader ?e ''c3dc-dev'' ''batch1'' ''team/''
        ''v2.3.0'' False True False ''upsert'' False example_world
     = c3dc_hub_data_loader ?e ''c3dc-dev'' ''batch1'' ''team''
        ''v2.3.0'' False True False ''upsert'' False example_world"
    by simp
  have f: "map s3_folder (loads (fst (c3dc_hub_data_loader ?e
        ''c3dc-dev'' ''batch1'' ''team'' ''v2.3.0'' False True False ''upsert'' False
        example_world))) = [''batch1/'']"
    by (simp add: example_flow Config_init_def endswith_slash_def)
  have g: "map upload_log_dir (loads (fst (c3dc_hub_data_loader ?e
        ''c3dc-dev'' ''batch1'' ''team'' ''v2.3.0'' False True False ''upsert'' False
        example_world)))
      = [Some ''s3://c3dc-curation/team/prefect_c3dc_dataloader_20240307_T090500/logs'']"
    by (simp add: example_flow Config_init_def endswith_slash_def)
  from a b c d f g show ?thesis by blast
qed

text \<open>
  \<^bold>\<open>C7\<close> as stated fails for a value ending in two separators: only one is handled.
\<close>
theorem trailing_separator_counterexample:
  "map upload_log_dir (loads (fst (c3dc_hub_data_loader (example_env (Inr ''v2.3.0\<newline>''))
       ''c3dc-dev'' ''batch1'' ''team//'' ''v2.3.0'' False True False ''upsert'' False
       example_world)))
   \<noteq> map upload_log_dir (loads (fst (c3dc_hub_data_loader (example_env (Inr ''v2.3.0\<newline>''))
       ''c3dc-dev'' ''batch1'' ''team/'' ''v2.3.0'' False True False ''upsert'' False
       example_world)))
   \<and> map s3_folder (loads (fst (c3dc_hub_data_loader (example_env (Inr ''v2.3.0\<newline>''))
       ''c3dc-dev'' ''batch1//'' ''team'' ''v2.3.0'' False True False ''upsert'' False
       example_world)))
   \<noteq> map s3_folder (loads (fst (c3dc_hub_data_loader (example_env (Inr ''v2.3.0\<newline>''))
       ''c3dc-dev'' ''batch1/'' ''team'' ''v2.3.0'' False True False ''upsert'' False
       example_world)))"
  by (simp add: example_flow Config_init_def endswith_slash_def)



text \<open>
  \<^bold>\<open>C9\<close> (failures of the derivation). When the model file does not parse, the error of
  the parser is the outcome; when the parsed document is a mapping without \<open>Nodes\<close> the
  outcome is \<^verbatim>\<open>KeyError\<close>, and when it is not a mapping at all it is \<^verbatim>\<open>TypeError\<close>. In
  each case the world is returned as it was: nothing is written.
\<close>
theorem create_prop_file_failures:
  "(files w my = Some text \<and> yaml_safe_load e text = Inl err
      \<longrightarrow> create_prop_file e my d dv w = (w, Inl err))
   \<and> (files w my = Some text \<and> yaml_safe_load e text = Inr (Y_map entries)
        \<and> map_of entries (S_str ''Nodes'') = None
      \<longrightarrow> create_prop_file e my d dv w = (w, Inl (KeyError ''Nodes'')))
   \<and> (files w my = Some text \<and> yaml_safe_load e text = Inr md \<and> (\<forall>entries. md \<noteq> Y_map entries)
      \<longrightarrow> (\<exists>msg. create_prop_file e my d dv w = (w, Inl (TypeError msg))))"
proof (intro conjI impI)
  assume "files w my = Some text \<and> yaml_safe_load e text = Inl err"
  then show "create_prop_file e my d dv w = (w, Inl err)"
    by (simp add: create_prop_file_def Let_def)
next
  assume "files w my = Some text \<and> yaml_safe_load e text = Inr (Y_map entries)
        \<and> map_of entries (S_str ''Nodes'') = None"
  then show "create_prop_file e my d dv w = (w, Inl (KeyError ''Nodes''))"
    by (simp add: create_prop_file_def Let_def)
next
  assume a: "files w my = Some text \<and> yaml_safe_load e text = Inr md \<and> (\<forall>entries. md \<noteq> Y_map entries)"
  then have "\<exists>msg. y_getitem md ''Nodes'' = Inl (TypeError msg)"
    by (cases "(md, ''Nodes'')" rule: y_getitem.cases) auto
  with a show "\<exists>msg. create_prop_file e my d dv w = (w, Inl (TypeError msg))"
    by (auto simp: create_prop_file_def Let_def)
qed

theorem create_prop_file_failures_witness:
  "create_prop_file (example_env (Inr ''v2.3.0'')) ''broken.yml'' '';'' ''example.org'' example_world
     = (example_world, Inl (YAMLError ''while parsing a flow mapping''))
   \<and> create_prop_file (example_env (Inr ''v2.3.0'')) ''no_nodes.yml'' '';'' ''example.org'' example_world
     = (example_world, Inl (KeyError ''Nodes''))
   \<and> (\<exists>msg. create_prop_file (example_env (Inr ''v2.3.0'')) ''empty.yml'' '';'' ''example.org''
        example_world = (example_world, Inl (TypeError msg)))"
proof -
  let ?e = "example_env (Inr ''v2.3.0'')"
  have 1: "files example_world ''broken.yml'' = Some ''Nodes: {''
      \<and> yaml_safe_load ?e ''Nodes: {'' = Inl (YAMLError ''while parsing a flow mapping'')"
    by (simp add: example_world_def example_env_def example_safe_load_def example_schema_text_def)
  have 2: "files example_world ''no_nodes.yml'' = Some ''Handle: C3DC''
      \<and> yaml_safe_load ?e ''Handle: C3DC'' = Inr (Y_map [(S_str ''Handle'', ystr ''C3DC'')])
      \<and> map_of [(S_str ''Handle'', ystr ''C3DC'')] (S_str ''Nodes'') = None"
    by (simp add: example_world_def example_env_def example_safe_load_def example_schema_text_def)
  have 3: "files example_world ''empty.yml'' = Some []
      \<and> yaml_safe_load ?e [] = Inr (Y_scalar S_null) \<and> (\<forall>entries. Y_scalar S_null \<noteq> Y_map entries)"
    by (simp add: example_world_def example_env_def example_safe_load_def example_schema_text_def)
  from create_prop_file_failures[of example_world "''broken.yml''" "''Nodes: {''" ?e
      "YAMLError ''while parsing a flow mapping''" "'';''" "''example.org''"] 1
  have a: "create_prop_file ?e ''broken.yml'' '';'' ''example.org'' example_world
     = (example_world, Inl (YAMLError ''while parsing a flow mapping''))"
    by blast
  from create_prop_file_failures[of example_world "''no_nodes.yml''" "''Handle: C3DC''" ?e _
      "'';''" "''example.org''" "[(S_str ''Handle'', ystr ''C3DC'')]"] 2
  have b: "create_prop_file ?e ''no_nodes.yml'' '';'' ''example.org'' example_world
     = (example_world, Inl (KeyError ''Nodes''))"
    by blast
  from create_prop_file_failures[of example_world "''empty.yml''" "[]" ?e _
      "'';''" "''example.org''" _ "Y_scalar S_null"] 3
  have c: "\<exists>msg. create_prop_file ?e ''empty.yml'' '';'' ''example.org''
        example_world = (example_world, Inl (TypeError msg))"
    by blast
  from a b c show ?thesis by blast
qed

text \<open>
  \<^bold>\<open>C10\<close> (key order). The written document has the single key \<open>Properties\<close>, whose
  entries have the keys \<open>domain_value\<close>, \<open>rel_prop_delimiter\<close>, \<open>delimiter\<close>,
  \<open>plurals\<close>, \<open>type_mapping\<close>, \<open>id_fields\<close>, in this order.
\<close>
theorem property_document_key_order:
  assumes "create_prop_file e my d dv w = (w', Inr p)"
  shows "\<exists>props. files w' p = Some (yaml_dump e (Y_map [(S_str ''Properties'', Y_map props)]))
    \<and> map fst props = [S_str ''domain_value'', S_str ''rel_prop_delimiter'', S_str ''delimiter'',
         S_str ''plurals'', S_str ''type_mapping'', S_str ''id_fields'']"
proof -
  from create_prop_file_Inr[OF assms] obtain pd idd where
    "p = ''props_file.yaml''"
    "w' = w\<lparr>files := (files w)(''props_file.yaml'' \<mapsto> yaml_dump e
              (Y_map [(S_str ''Properties'', Y_map (properties_entries dv d pd idd))]))\<rparr>"
    by blast
  then show ?thesis
    by (intro exI[of _ "properties_entries dv d pd idd"]) simp
qed

theorem property_document_key_order_witness:
  "create_prop_file (example_env (Inr ''v2.3.0'')) ''../c3dc-model/model-desc/c3dc-model.yml''
      '';'' ''example.org'' example_world
    = (fst (create_prop_file (example_env (Inr ''v2.3.0''))
         ''../c3dc-model/model-desc/c3dc-model.yml'' '';'' ''example.org'' example_world),
       Inr ''props_file.yaml'')
   \<and> (\<exists>props. files (fst (create_prop_file (example_env (Inr ''v2.3.0''))
         ''../c3dc-model/model-desc/c3dc-model.yml'' '';'' ''example.org'' example_world))
         ''props_file.yaml''
        = Some (example_dump (Y_map [(S_str ''Properties'', Y_map props)]))
      \<and> map fst props = [S_str ''domain_value'', S_str ''rel_prop_delimiter'',
           S_str ''delimiter'', S_str ''plurals'', S_str ''type_mapping'', S_str ''id_fields''])"
  using example_create_fst[of "Inr ''v2.3.0''"]
    property_document_key_order[OF example_create_fst[of "Inr ''v2.3.0''"]]
  by (simp only: example_yaml_dump)

end
